theory Spec2Isabelle
  imports Main "HOL-Library.AList" "HOL-Library.Sublist" "HOL-Library.Word"
begin

section \<open>Values, documents and errors\<close>

text \<open>
  The values the handlers of \<^verbatim>\<open>backend/app.py\<close> pass around are what
  \<^verbatim>\<open>request.json\<close> decodes and what the driver stores: \<^verbatim>\<open>None\<close>, booleans,
  integers, strings, lists, dicts, and the store's \<^verbatim>\<open>ObjectId\<close>. A dict is an
  association list in insertion order. Integers are Python's unbounded ones;
  floating-point numbers are left out. A string is the list of its code points,
  of which a \<open>char\<close> holds those below 256.
\<close>

datatype json =
    JNull
  | JBool bool
  | JInt int
  | JStr string
  | JArr "json list"
  | JObj "(string \<times> json) list"
  | ObjectId nat

type_synonym document = "(string \<times> json) list"
type_synonym collection = "document list"
type_synonym byte = "8 word"

text \<open>Every exception carries the text that \<^verbatim>\<open>str(e)\<close> gives.\<close>

datatype error =
    TypeError string
  | ValueError string
  | OverflowError string
  | InvalidDocument string
  | DocumentTooLarge string
  | OperationFailure string
  | DuplicateKeyError string
  | HTTPException string

fun str_error :: "error \<Rightarrow> string" where
  "str_error (TypeError m) = m"
| "str_error (ValueError m) = m"
| "str_error (OverflowError m) = m"
| "str_error (InvalidDocument m) = m"
| "str_error (DocumentTooLarge m) = m"
| "str_error (OperationFailure m) = m"
| "str_error (DuplicateKeyError m) = m"
| "str_error (HTTPException m) = m"

text \<open>Python's truth value, as \<^verbatim>\<open>not data\<close> and \<^verbatim>\<open>not counter\<close> test it.\<close>

fun truthy :: "json \<Rightarrow> bool" where
  "truthy JNull = False"
| "truthy (JBool b) = b"
| "truthy (JInt n) = (n \<noteq> 0)"
| "truthy (JStr s) = (s \<noteq> [])"
| "truthy (JArr xs) = (xs \<noteq> [])"
| "truthy (JObj d) = (d \<noteq> [])"
| "truthy (ObjectId n) = True"

text \<open>
  \<^verbatim>\<open>key in data\<close>: a key of a dict, an element of a list, a substring of a
  string; any other operand is not iterable.
\<close>

fun py_in :: "string \<Rightarrow> json \<Rightarrow> error + bool" where
  "py_in k (JObj d) = Inr (k \<in> fst ` set d)"
| "py_in k (JArr xs) = Inr (JStr k \<in> set xs)"
| "py_in k (JStr s) = Inr (sublist k s)"
| "py_in k v = Inl (TypeError ''argument is not iterable'')"

subsection \<open>\<^verbatim>\<open>int(...)\<close>\<close>

text \<open>
  \<^verbatim>\<open>int(s)\<close> of a string strips surrounding white space, takes an optional
  sign and then decimal digits, where single underscores may separate digits.
  Below 256 the white space is the ASCII one, U+0085 and U+00A0, and the decimal
  digits are \<open>0\<close> to \<open>9\<close>.
\<close>

definition is_space :: "char \<Rightarrow> bool" where
  "is_space c =
     (c \<in> set [CHR '' '', CHR 0x09, CHR 0x0A, CHR 0x0B, CHR 0x0C, CHR 0x0D,
                CHR 0x1C, CHR 0x1D, CHR 0x1E, CHR 0x1F, CHR 0x85, CHR 0xA0])"

definition digit_val :: "char \<Rightarrow> nat option" where
  "digit_val c =
     (let n = (of_char c :: nat) in if 48 \<le> n \<and> n \<le> 57 then Some (n - 48) else None)"

text \<open>
  \<open>digits acc prev s\<close>: the digits read so far are worth \<open>acc\<close>; \<open>prev\<close> says whether
  the previous character was a digit.
\<close>

fun digits :: "nat \<Rightarrow> bool \<Rightarrow> string \<Rightarrow> nat option" where
  "digits acc prev [] = (if prev then Some acc else None)"
| "digits acc prev (c # cs) =
     (if c = CHR ''_'' then (if prev then digits acc False cs else None)
      else (case digit_val c of
              None \<Rightarrow> None
            | Some v \<Rightarrow> digits (10 * acc + v) True cs))"

definition strip :: "string \<Rightarrow> string" where
  "strip s = rev (dropWhile is_space (rev (dropWhile is_space s)))"

definition int_of_str :: "string \<Rightarrow> int option" where
  "int_of_str s =
     (case strip s of
        [] \<Rightarrow> None
      | c # cs \<Rightarrow>
          if c = CHR ''-'' then map_option (\<lambda>n. - int n) (digits 0 False cs)
          else if c = CHR ''+'' then map_option int (digits 0 False cs)
          else map_option int (digits 0 False (c # cs)))"

fun py_int :: "json \<Rightarrow> error + int" where
  "py_int (JInt n) = Inr n"
| "py_int (JBool b) = Inr (if b then 1 else 0)"
| "py_int (JStr s) =
     (case int_of_str s of
        None \<Rightarrow> Inl (ValueError ''invalid literal for int() with base 10'')
      | Some n \<Rightarrow> Inr n)"
| "py_int v = Inl (TypeError ''int() argument must be a string, a bytes-like object or a real number'')"

subsection \<open>\<^verbatim>\<open>base64.b64encode\<close> and \<^verbatim>\<open>str(ObjectId)\<close>\<close>

definition b64_alphabet :: string where
  "b64_alphabet = ''ABCDEFGHIJKLMNOPQRSTUVWXYZabcdefghijklmnopqrstuvwxyz0123456789+/''"

definition b64_char :: "nat \<Rightarrow> char" where
  "b64_char n = b64_alphabet ! (n mod 64)"

text \<open>Three bytes give four characters; one or two left over are padded with \<open>=\<close>.\<close>

fun b64encode :: "byte list \<Rightarrow> string" where
  "b64encode [] = []"
| "b64encode [a] =
     [b64_char (unat a div 4), b64_char (unat a mod 4 * 16), CHR ''='', CHR ''='']"
| "b64encode [a, b] =
     [b64_char (unat a div 4), b64_char (unat a mod 4 * 16 + unat b div 16),
      b64_char (unat b mod 16 * 4), CHR ''='']"
| "b64encode (a # b # c # rest) =
     [b64_char (unat a div 4), b64_char (unat a mod 4 * 16 + unat b div 16),
      b64_char (unat b mod 16 * 4 + unat c div 64), b64_char (unat c mod 64)]
     @ b64encode rest"

fun hex_digits :: "nat \<Rightarrow> nat \<Rightarrow> string" where
  "hex_digits 0 n = []"
| "hex_digits (Suc k) n = hex_digits k (n div 16) @ [''0123456789abcdef'' ! (n mod 16)]"

text \<open>An ObjectId is twelve bytes; its \<^verbatim>\<open>str\<close> is their 24 hexadecimal digits.\<close>

definition str_oid :: "nat \<Rightarrow> string" where
  "str_oid n = hex_digits 24 n"

text \<open>
  \<^verbatim>\<open>str(result.inserted_id)\<close>. The handlers insert dicts without an \<^verbatim>\<open>_id\<close>,
  for which the driver generates an ObjectId (\<open>insert_one_generates\<close> below); the
  other equations are never reached from them.
\<close>

fun str_inserted_id :: "json \<Rightarrow> string" where
  "str_inserted_id (ObjectId n) = str_oid n"
| "str_inserted_id (JStr s) = s"
| "str_inserted_id v = []"

section \<open>The document store\<close>

text \<open>
  The store is the external collaborator: five collections, each a list of
  documents in natural order, every document identified by its \<^verbatim>\<open>_id\<close> field.
  The operations below are the driver calls the source makes, with the arguments
  it makes them with. An insert refuses a document that cannot be encoded or is
  too large; the counters are incremented as unbounded integers. ObjectIds are
  generated by the driver; the model draws them from a supply \<open>next_oid\<close>, and
  a generated ObjectId is taken to be new.
\<close>

record store =
  projects_collection :: collection
  clients_collection :: collection
  contacts_collection :: collection
  subscribers_collection :: collection
  counter_collection :: collection
  next_oid :: nat

definition matches_id :: "string \<Rightarrow> document \<Rightarrow> bool" where
  "matches_id name d = (map_of d ''_id'' = Some (JStr name))"

text \<open>\<^verbatim>\<open>find_one({'_id': name})\<close>: the first document with that identifier.\<close>

definition find_one :: "collection \<Rightarrow> string \<Rightarrow> document option" where
  "find_one c name = find (matches_id name) c"

fun update_first :: "(document \<Rightarrow> bool) \<Rightarrow> (document \<Rightarrow> document) \<Rightarrow> collection \<Rightarrow> collection" where
  "update_first P f [] = []"
| "update_first P f (d # ds) = (if P d then f d # ds else d # update_first P f ds)"

text \<open>
  \<^verbatim>\<open>{'$inc': {'sequence_value': 1}}\<close> on one document: a missing field is set to
  the increment, an integer is incremented, any other value is refused.
\<close>

definition apply_inc :: "document \<Rightarrow> error + document" where
  "apply_inc d =
     (case map_of d ''sequence_value'' of
        None \<Rightarrow> Inr (AList.update ''sequence_value'' (JInt 1) d)
      | Some (JInt n) \<Rightarrow> Inr (AList.update ''sequence_value'' (JInt (n + 1)) d)
      | Some v \<Rightarrow> Inl (OperationFailure ''Cannot apply $inc to a value of non-numeric type''))"

definition new_counter :: "string \<Rightarrow> document" where
  "new_counter name = [(''_id'', JStr name), (''sequence_value'', JInt 1)]"

text \<open>
  \<^verbatim>\<open>find_one_and_update({'_id': name}, {'$inc': {'sequence_value': 1}},
  return_document=ReturnDocument.AFTER, upsert=True)\<close>: one atomic operation of the
  store. It increments the matching document, or inserts a new one built from the
  filter and the update when none matches, and returns the document as it is
  afterwards.
\<close>

definition find_one_and_update :: "collection \<Rightarrow> string \<Rightarrow> error + (document option \<times> collection)" where
  "find_one_and_update c name =
     (case find_one c name of
        None \<Rightarrow> Inr (Some (new_counter name), c @ [new_counter name])
      | Some d \<Rightarrow>
          (case apply_inc d of
             Inl e \<Rightarrow> Inl e
           | Inr d' \<Rightarrow> Inr (Some d', update_first (matches_id name) (\<lambda>_. d') c)))"

text \<open>
  \<^verbatim>\<open>update_one({'_id': name}, {'$set': {'sequence_value': 1}}, upsert=True)\<close>.
\<close>

definition update_one :: "collection \<Rightarrow> string \<Rightarrow> collection" where
  "update_one c name =
     (case find_one c name of
        None \<Rightarrow> c @ [new_counter name]
      | Some d \<Rightarrow> update_first (matches_id name) (AList.update ''sequence_value'' (JInt 1)) c)"

text \<open>\<^verbatim>\<open>find({}, {'_id': 0})\<close>: every document, without its \<^verbatim>\<open>_id\<close> field.\<close>

definition find_without_id :: "collection \<Rightarrow> document list" where
  "find_without_id c = map (AList.delete ''_id'') c"

fun is_array :: "json \<Rightarrow> bool" where
  "is_array (JArr xs) = True"
| "is_array v = False"

subsection \<open>What an insert refuses\<close>

text \<open>
  The driver encodes a document as BSON before it sends it. An integer takes four
  bytes when it fits 32 bits and eight when it fits 64; a larger one cannot be
  encoded. A key is written as its UTF-8 bytes and a closing zero byte, so a key
  cannot contain the code point 0. The encoding goes through the fields in
  order, and the first one that fails gives the exception.
\<close>

definition int64_ok :: "int \<Rightarrow> bool" where
  "int64_ok n = (- (2 ^ 63) \<le> n \<and> n < 2 ^ 63)"

definition int32_ok :: "int \<Rightarrow> bool" where
  "int32_ok n = (- (2 ^ 31) \<le> n \<and> n < 2 ^ 31)"

fun encode_error :: "json \<Rightarrow> error option"
  and fields_error :: "(string \<times> json) list \<Rightarrow> error option"
  and elems_error :: "json list \<Rightarrow> error option" where
  "encode_error (JInt n) =
     (if int64_ok n then None else Some (OverflowError ''MongoDB can only handle up to 8-byte ints''))"
| "encode_error (JArr xs) = elems_error xs"
| "encode_error (JObj d) = fields_error d"
| "encode_error JNull = None"
| "encode_error (JBool b) = None"
| "encode_error (JStr s) = None"
| "encode_error (ObjectId n) = None"
| "fields_error [] = None"
| "fields_error (kv # d) =
     (if CHR 0x00 \<in> set (fst kv) then
        Some (InvalidDocument ''Key names must not contain the NULL byte'')
      else (case encode_error (snd kv) of Some e \<Rightarrow> Some e | None \<Rightarrow> fields_error d))"
| "elems_error [] = None"
| "elems_error (x # xs) =
     (case encode_error x of Some e \<Rightarrow> Some e | None \<Rightarrow> elems_error xs)"

text \<open>
  The size of the encoding, in bytes. A document is four bytes of length, its
  elements and a closing zero byte; an element is a type byte, its key and its
  value; an array is a document whose keys are the indices in decimal.
\<close>

definition utf8_len :: "string \<Rightarrow> int" where
  "utf8_len s = sum_list (map (\<lambda>c. if (of_char c :: nat) < 128 then 1 else 2) s)"

fun decimal_len :: "nat \<Rightarrow> int" where
  "decimal_len n = (if n < 10 then 1 else 1 + decimal_len (n div 10))"

declare decimal_len.simps [simp del]

fun bson_value_size :: "json \<Rightarrow> int"
  and bson_fields_size :: "(string \<times> json) list \<Rightarrow> int"
  and bson_elems_size :: "nat \<Rightarrow> json list \<Rightarrow> int" where
  "bson_value_size JNull = 0"
| "bson_value_size (JBool b) = 1"
| "bson_value_size (JInt n) = (if int32_ok n then 4 else 8)"
| "bson_value_size (JStr s) = 4 + utf8_len s + 1"
| "bson_value_size (ObjectId n) = 12"
| "bson_value_size (JArr xs) = 4 + bson_elems_size 0 xs + 1"
| "bson_value_size (JObj d) = 4 + bson_fields_size d + 1"
| "bson_fields_size [] = 0"
| "bson_fields_size (kv # d) =
     1 + (utf8_len (fst kv) + 1) + bson_value_size (snd kv) + bson_fields_size d"
| "bson_elems_size i [] = 0"
| "bson_elems_size i (x # xs) =
     1 + (decimal_len i + 1) + bson_value_size x + bson_elems_size (Suc i) xs"

definition bson_size :: "document \<Rightarrow> int" where
  "bson_size d = 4 + bson_fields_size d + 1"

text \<open>A document of more than 16 MiB is refused.\<close>

definition max_bson_size :: int where
  "max_bson_size = 16777216"

definition bson_refusal :: "document \<Rightarrow> error option" where
  "bson_refusal d =
     (case fields_error d of
        Some e \<Rightarrow> Some e
      | None \<Rightarrow>
          if max_bson_size < bson_size d then
            Some (DocumentTooLarge ''BSON document too large'')
          else None)"

text \<open>
  \<^verbatim>\<open>insert_one(doc)\<close>, given the collection and the ObjectId supply. The driver
  refuses what is not a dict. A dict without \<^verbatim>\<open>_id\<close> gets a generated ObjectId.
  The document goes to the store with \<^verbatim>\<open>_id\<close> as its first field, and is
  refused when it cannot be encoded or is too large; an \<^verbatim>\<open>_id\<close> of its own must
  not be an array and must not be in use. The result is the inserted identifier,
  the collection and the supply. The texts of the exceptions are shortened.
\<close>

definition insert_one :: "collection \<Rightarrow> nat \<Rightarrow> json \<Rightarrow> error + (json \<times> collection \<times> nat)" where
  "insert_one c oid doc =
     (case doc of
        JObj d \<Rightarrow>
          (case map_of d ''_id'' of
             None \<Rightarrow>
               (case bson_refusal ((''_id'', ObjectId oid) # d) of
                  Some e \<Rightarrow> Inl e
                | None \<Rightarrow> Inr (ObjectId oid, c @ [(''_id'', ObjectId oid) # d], Suc oid))
           | Some i \<Rightarrow>
               (case bson_refusal ((''_id'', i) # AList.delete ''_id'' d) of
                  Some e \<Rightarrow> Inl e
                | None \<Rightarrow>
                    if is_array i then
                      Inl (OperationFailure ''The _id value cannot be of type array'')
                    else if list_ex (\<lambda>e. map_of e ''_id'' = Some i) c then
                      Inl (DuplicateKeyError ''E11000 duplicate key error'')
                    else Inr (i, c @ [(''_id'', i) # AList.delete ''_id'' d], oid)))
      | _ \<Rightarrow> Inl (TypeError ''document must be an instance of dict''))"

section \<open>The sequence generator\<close>

text \<open>
  \<^verbatim>\<open>get_next_id\<close> touches the counters collection only. The source's fallback
  branch is for a find-and-modify that reports no document, so the find-and-modify
  is a parameter of \<open>get_next_id_with\<close>; \<open>get_next_id\<close> is the function with the
  store's own operation. The result is the value returned or the exception raised,
  and the collection as the call leaves it.
\<close>

definition not_counter :: "document option \<Rightarrow> bool" where
  "not_counter counter = (case counter of None \<Rightarrow> True | Some d \<Rightarrow> d = [])"

definition dict_get :: "document \<Rightarrow> string \<Rightarrow> json \<Rightarrow> json" where
  "dict_get d k dflt = (case map_of d k of None \<Rightarrow> dflt | Some v \<Rightarrow> v)"

definition get_next_id_with ::
  "(collection \<Rightarrow> string \<Rightarrow> error + (document option \<times> collection)) \<Rightarrow>
   collection \<Rightarrow> string \<Rightarrow> (error + int) \<times> collection" where
  "get_next_id_with fam c collection_name =
     (case fam c collection_name of
        Inl e \<Rightarrow> (Inl e, c)
      | Inr (counter, c') \<Rightarrow>
          if not_counter counter then (Inr 1, update_one c' collection_name)
          else (py_int (dict_get (the counter) ''sequence_value'' (JInt 1)), c'))"

definition get_next_id :: "collection \<Rightarrow> string \<Rightarrow> (error + int) \<times> collection" where
  "get_next_id = get_next_id_with find_one_and_update"

section \<open>Requests and responses\<close>

text \<open>
  What a handler reads from the request: \<^verbatim>\<open>request.json\<close>,
  \<^verbatim>\<open>request.files\<close> and \<^verbatim>\<open>request.form\<close>. Reading \<^verbatim>\<open>request.json\<close> gives the
  decoded body (\<open>JNull\<close> is Python's \<^verbatim>\<open>None\<close>), or raises the framework's
  exception when the framework does not accept the body as JSON; which of the
  two, it is the framework that decides. An uploaded file has a file name, a
  content type (either may be missing) and its bytes; its truth value is that of
  its file name.
\<close>

record file_storage =
  filename :: "string option"
  content_type :: "string option"
  content :: "byte list"

record request =
  json_body :: "error + json"
  files :: "(string \<times> file_storage) list"
  form :: "(string \<times> string) list"

text \<open>
  A handler returns a body with a status, or returns nothing, or lets an
  exception escape. \<^verbatim>\<open>jsonify\<close> only wraps the value: serialising it is the
  framework's work.
\<close>

datatype outcome = Response json nat | NoResponse | Raises error

definition jsonify :: "json \<Rightarrow> nat \<Rightarrow> outcome" where
  "jsonify body status = Response body status"

definition file_truthy :: "file_storage \<Rightarrow> bool" where
  "file_truthy file = (case filename file of None \<Rightarrow> False | Some n \<Rightarrow> n \<noteq> [])"

text \<open>\<^verbatim>\<open>request.form.get(k)\<close>: the field's text, or \<^verbatim>\<open>None\<close>.\<close>

definition form_get :: "(string \<times> string) list \<Rightarrow> string \<Rightarrow> json" where
  "form_get f k = (case map_of f k of None \<Rightarrow> JNull | Some v \<Rightarrow> JStr v)"

text \<open>A value inside an f-string: \<^verbatim>\<open>None\<close> prints as \<open>None\<close>.\<close>

definition fmt :: "string option \<Rightarrow> string" where
  "fmt v = (case v of None \<Rightarrow> ''None'' | Some t \<Rightarrow> t)"

definition image_url_of :: "file_storage \<Rightarrow> string" where
  "image_url_of file = ''data:'' @ fmt (content_type file) @ '';base64,'' @ b64encode (content file)"

section \<open>Public routes\<close>

definition get_projects :: "store \<Rightarrow> outcome \<times> store" where
  "get_projects s =
     (jsonify (JObj [(''projects'', JArr (map JObj (find_without_id (projects_collection s))))]) 200, s)"

definition get_clients :: "store \<Rightarrow> outcome \<times> store" where
  "get_clients s =
     (jsonify (JObj [(''clients'', JArr (map JObj (find_without_id (clients_collection s))))]) 200, s)"

definition submit_contact :: "request \<Rightarrow> store \<Rightarrow> outcome \<times> store" where
  "submit_contact req s =
     (case json_body req of
        Inl e \<Rightarrow> (Raises e, s)
      | Inr data \<Rightarrow>
          if \<not> truthy data then (jsonify (JObj [(''error'', JStr ''No data provided'')]) 400, s)
          else
            (case insert_one (contacts_collection s) (next_oid s) data of
               Inl e \<Rightarrow> (Raises e, s)
             | Inr (inserted_id, c, oid) \<Rightarrow>
                 (jsonify (JObj [(''message'', JStr ''Contact submitted'')]) 201,
                  s\<lparr>contacts_collection := c, next_oid := oid\<rparr>)))"

definition subscribe :: "request \<Rightarrow> store \<Rightarrow> outcome \<times> store" where
  "subscribe req s =
     (case json_body req of
        Inl e \<Rightarrow> (Raises e, s)
      | Inr data \<Rightarrow>
          if \<not> truthy data then (jsonify (JObj [(''error'', JStr ''Email is required'')]) 400, s)
          else
            (case py_in ''email'' data of
               Inl e \<Rightarrow> (Raises e, s)
             | Inr has_email \<Rightarrow>
                 if \<not> has_email then
                   (jsonify (JObj [(''error'', JStr ''Email is required'')]) 400, s)
                 else
                   (case insert_one (subscribers_collection s) (next_oid s) data of
                      Inl e \<Rightarrow> (Raises e, s)
                    | Inr (inserted_id, c, oid) \<Rightarrow>
                        (jsonify (JObj [(''message'', JStr ''Subscribed'')]) 201,
                         s\<lparr>subscribers_collection := c, next_oid := oid\<rparr>))))"

section \<open>Admin routes\<close>

text \<open>
  The body of each admin handler is inside \<^verbatim>\<open>try\<close>: an exception becomes the
  500 answer, and what the store had already done stays done. When the file is
  falsy the \<^verbatim>\<open>if file:\<close> block is skipped and the function ends without a
  \<^verbatim>\<open>return\<close>.
\<close>

definition server_error :: "error \<Rightarrow> outcome" where
  "server_error e = jsonify (JObj [(''error'', JStr (str_error e))]) 500"

definition add_project :: "request \<Rightarrow> store \<Rightarrow> outcome \<times> store" where
  "add_project req s =
     (case map_of (files req) ''image'' of
        None \<Rightarrow> (jsonify (JObj [(''error'', JStr ''No image uploaded'')]) 400, s)
      | Some file \<Rightarrow>
          (let name = form_get (form req) ''name'';
               description = form_get (form req) ''description''
           in
           if \<not> truthy name \<or> \<not> truthy description then
             (jsonify (JObj [(''error'', JStr ''Name and description are required'')]) 400, s)
           else if file_truthy file then
             (let image_url = image_url_of file in
              case get_next_id (counter_collection s) ''projects'' of
                (Inl e, cc) \<Rightarrow> (server_error e, s\<lparr>counter_collection := cc\<rparr>)
              | (Inr project_id, cc) \<Rightarrow>
                  (let project_data =
                         [(''id'', JInt project_id), (''name'', name),
                          (''description'', description), (''image_url'', JStr image_url)]
                   in
                   case insert_one (projects_collection s) (next_oid s) (JObj project_data) of
                     Inl e \<Rightarrow> (server_error e, s\<lparr>counter_collection := cc\<rparr>)
                   | Inr (inserted_id, pc, oid) \<Rightarrow>
                       (jsonify
                          (JObj [(''message'', JStr ''Project created''),
                                 (''data'',
                                  JObj (AList.update ''_id'' (JStr (str_inserted_id inserted_id))
                                          (AList.update ''_id'' inserted_id project_data)))])
                          201,
                        s\<lparr>counter_collection := cc, projects_collection := pc, next_oid := oid\<rparr>)))
           else (NoResponse, s)))"

definition add_client :: "request \<Rightarrow> store \<Rightarrow> outcome \<times> store" where
  "add_client req s =
     (case map_of (files req) ''image'' of
        None \<Rightarrow> (jsonify (JObj [(''error'', JStr ''No image uploaded'')]) 400, s)
      | Some file \<Rightarrow>
          (let name = form_get (form req) ''name'';
               description = form_get (form req) ''description'';
               designation = form_get (form req) ''designation''
           in
           if \<not> truthy name \<or> \<not> truthy description \<or> \<not> truthy designation then
             (jsonify (JObj [(''error'', JStr ''Name, description, and designation are required'')]) 400, s)
           else if file_truthy file then
             (let image_url = image_url_of file in
              case get_next_id (counter_collection s) ''clients'' of
                (Inl e, cc) \<Rightarrow> (server_error e, s\<lparr>counter_collection := cc\<rparr>)
              | (Inr client_id, cc) \<Rightarrow>
                  (let client_data =
                         [(''id'', JInt client_id), (''name'', name),
                          (''description'', description), (''designation'', designation),
                          (''image_url'', JStr image_url)]
                   in
                   case insert_one (clients_collection s) (next_oid s) (JObj client_data) of
                     Inl e \<Rightarrow> (server_error e, s\<lparr>counter_collection := cc\<rparr>)
                   | Inr (inserted_id, pc, oid) \<Rightarrow>
                       (jsonify
                          (JObj [(''message'', JStr ''Client added''),
                                 (''data'',
                                  JObj (AList.update ''_id'' (JStr (str_inserted_id inserted_id))
                                          (AList.update ''_id'' inserted_id client_data)))])
                          201,
                        s\<lparr>counter_collection := cc, clients_collection := pc, next_oid := oid\<rparr>)))
           else (NoResponse, s)))"

definition get_all_contacts :: "store \<Rightarrow> outcome \<times> store" where
  "get_all_contacts s =
     (jsonify (JObj [(''contacts'', JArr (map JObj (find_without_id (contacts_collection s))))]) 200, s)"

definition get_all_subscribers :: "store \<Rightarrow> outcome \<times> store" where
  "get_all_subscribers s =
     (jsonify (JObj [(''subscribers'', JArr (map JObj (find_without_id (subscribers_collection s))))]) 200, s)"

section \<open>Calls in sequence and calls in parallel\<close>

text \<open>
  The value a counter holds: the \<^verbatim>\<open>sequence_value\<close> of the counter document of
  that name, when the document exists and the field is an integer.
\<close>

definition seq_val :: "collection \<Rightarrow> string \<Rightarrow> int option" where
  "seq_val c name =
     (case find_one c name of
        None \<Rightarrow> None
      | Some d \<Rightarrow> (case map_of d ''sequence_value'' of Some (JInt v) \<Rightarrow> Some v | _ \<Rightarrow> None))"

text \<open>One call after the other, each on the collection the previous one left.\<close>

fun run_calls :: "collection \<Rightarrow> string list \<Rightarrow> (error + int) list \<times> collection" where
  "run_calls c [] = ([], c)"
| "run_calls c (n # ns) =
     (case get_next_id c n of
        (r, c') \<Rightarrow> (case run_calls c' ns of (rs, c'') \<Rightarrow> (r # rs, c'')))"

text \<open>
  Concurrent calls share the counters collection. Each operation of the store is
  atomic, so a concurrent execution is an interleaving of the calls' store
  operations: a call does its find-and-modify in one step and, only in the
  fallback branch, its \<^verbatim>\<open>update_one\<close> in a second one. A schedule names the call
  that moves next.
\<close>

datatype call =
    Pending string
  | Fallback string
  | Returned string int
  | Raised string error

definition step_call :: "call \<Rightarrow> collection \<Rightarrow> call \<times> collection" where
  "step_call t c =
     (case t of
        Pending name \<Rightarrow>
          (case find_one_and_update c name of
             Inl e \<Rightarrow> (Raised name e, c)
           | Inr (counter, c') \<Rightarrow>
               if not_counter counter then (Fallback name, c')
               else
                 (case py_int (dict_get (the counter) ''sequence_value'' (JInt 1)) of
                    Inl e \<Rightarrow> (Raised name e, c')
                  | Inr v \<Rightarrow> (Returned name v, c')))
      | Fallback name \<Rightarrow> (Returned name 1, update_one c name)
      | _ \<Rightarrow> (t, c))"

definition step :: "nat \<Rightarrow> call list \<times> collection \<Rightarrow> call list \<times> collection" where
  "step i cfg =
     (case cfg of
        (ts, c) \<Rightarrow>
          if i < length ts then (case step_call (ts ! i) c of (t, c') \<Rightarrow> (ts[i := t], c'))
          else (ts, c))"

definition run :: "nat list \<Rightarrow> call list \<times> collection \<Rightarrow> call list \<times> collection" where
  "run sched cfg = fold step sched cfg"

text \<open>
  The counters collection as the data model has it: a \<^verbatim>\<open>sequence_value\<close>, where
  a counter document has one, is an integer.
\<close>

definition doc_ok :: "document \<Rightarrow> bool" where
  "doc_ok d =
     (case map_of d ''sequence_value'' of
        None \<Rightarrow> True | Some (JInt v) \<Rightarrow> True | Some _ \<Rightarrow> False)"

definition counters_ok :: "collection \<Rightarrow> bool" where
  "counters_ok c = list_all doc_ok c"

text \<open>
  The highest value issued so far for a sequence name: the value its counter
  holds, and 0 while nothing has been issued.
\<close>

definition last_issued :: "collection \<Rightarrow> string \<Rightarrow> int" where
  "last_issued c name = (case seq_val c name of None \<Rightarrow> 0 | Some v \<Rightarrow> v)"

text \<open>
  What every interleaved execution keeps true: no call is in the fallback branch,
  a value that was returned is at most the value its counter holds, and two calls
  for one sequence name have not been given the same value.
\<close>

definition calls_inv :: "call list \<Rightarrow> collection \<Rightarrow> bool" where
  "calls_inv ts c =
     ((\<forall>m. Fallback m \<notin> set ts) \<and>
      (\<forall>i n a. i < length ts \<and> ts ! i = Returned n a \<longrightarrow> (\<exists>w. seq_val c n = Some w \<and> a \<le> w)) \<and>
      (\<forall>i j n a b. i < j \<and> j < length ts \<and> ts ! i = Returned n a \<and> ts ! j = Returned n b
                    \<longrightarrow> a \<noteq> b))"

section \<open>The store operations on counters\<close>

lemma find_update_first_same:
  "find P c = Some d \<Longrightarrow> P d' \<Longrightarrow> find P (update_first P (\<lambda>_. d') c) = Some d'"
  by (induction c) (auto split: if_splits)

lemma find_update_first_keep:
  "(\<And>d. Q (f d) = Q d) \<Longrightarrow> (\<And>d. P d \<Longrightarrow> \<not> Q d) \<Longrightarrow> find Q (update_first P f c) = find Q c"
  by (induction c) auto

lemma find_snoc:
  "find P (c @ [x]) = (case find P c of None \<Rightarrow> (if P x then Some x else None) | Some d \<Rightarrow> Some d)"
  by (induction c) auto

lemma matches_id_update:
  "k \<noteq> ''_id'' \<Longrightarrow> matches_id name (AList.update k v d) = matches_id name d"
  by (simp add: matches_id_def update_conv')

lemma matches_id_unique: "matches_id n d \<Longrightarrow> matches_id m d \<Longrightarrow> m = n"
  by (simp add: matches_id_def)

lemma matches_id_new_counter: "matches_id m (new_counter n) = (m = n)"
  by (auto simp: matches_id_def new_counter_def)

lemma new_counter_value: "map_of (new_counter n) ''sequence_value'' = Some (JInt 1)"
  by (simp add: new_counter_def)

lemma new_counter_not_empty: "new_counter n \<noteq> []"
  by (simp add: new_counter_def)

lemma find_one_matches: "find_one c n = Some d \<Longrightarrow> matches_id n d"
  unfolding find_one_def by (induction c) (auto split: if_splits)

lemma apply_inc_result:
  "apply_inc d = Inr d' \<Longrightarrow>
   d' = AList.update ''sequence_value''
          (JInt (case map_of d ''sequence_value'' of Some (JInt v) \<Rightarrow> v + 1 | _ \<Rightarrow> 1)) d"
  by (auto simp: apply_inc_def split: option.splits json.splits)

lemma find_one_and_update_result:
  assumes "find_one_and_update c n = Inr (r, c')"
  shows "\<exists>d. r = Some d \<and> find_one c' n = Some d \<and>
             map_of d ''sequence_value'' = Some (JInt (case seq_val c n of None \<Rightarrow> 1 | Some v \<Rightarrow> v + 1))"
proof (cases "find_one c n")
  case None
  with assms show ?thesis
    by (auto simp: find_one_and_update_def find_one_def find_snoc matches_id_new_counter
        seq_val_def new_counter_value)
next
  case (Some d0)
  with assms obtain d where d: "apply_inc d0 = Inr d" "r = Some d"
    "c' = update_first (matches_id n) (\<lambda>_. d) c"
    by (auto simp: find_one_and_update_def split: sum.splits)
  from apply_inc_result[OF d(1)] have d_eq: "d = AList.update ''sequence_value''
          (JInt (case map_of d0 ''sequence_value'' of Some (JInt v) \<Rightarrow> v + 1 | _ \<Rightarrow> 1)) d0" .
  have m: "matches_id n d"
    using find_one_matches[OF Some] by (subst d_eq) (simp add: matches_id_update)
  have f: "find_one c' n = Some d"
    using Some m unfolding d(3) find_one_def by (rule find_update_first_same)
  have "map_of d ''sequence_value'' = Some (JInt (case seq_val c n of None \<Rightarrow> 1 | Some v \<Rightarrow> v + 1))"
    using d(1) Some by (subst d_eq) (auto simp: update_conv' seq_val_def apply_inc_def split: option.splits json.splits)
  with d(2) f show ?thesis by simp
qed

lemma find_one_and_update_other:
  assumes "find_one_and_update c n = Inr (r, c')" "m \<noteq> n"
  shows "find_one c' m = find_one c m"
proof (cases "find_one c n")
  case None
  with assms show ?thesis
    by (auto simp: find_one_and_update_def find_one_def find_snoc matches_id_new_counter split: option.splits)
next
  case (Some d0)
  with assms(1) obtain d where d: "c' = update_first (matches_id n) (\<lambda>_. d) c" "matches_id n d"
    using find_one_and_update_result[OF assms(1)] find_one_matches
    by (auto simp: find_one_and_update_def split: sum.splits)
  have "find (matches_id m) (update_first (matches_id n) (\<lambda>_. d) c) = find (matches_id m) c"
  proof (induction c)
    case Nil show ?case by simp
  next
    case (Cons a c)
    show ?case using Cons d(2) assms(2) by (auto dest: matches_id_unique)
  qed
  then show ?thesis by (simp add: d(1) find_one_def)
qed

lemma find_one_and_update_error:
  "find_one_and_update c n = Inl e \<Longrightarrow> seq_val c n = None \<and> find_one c n \<noteq> None"
  by (auto simp: find_one_and_update_def apply_inc_def seq_val_def split: option.splits json.splits sum.splits)

lemma get_next_id_returns:
  assumes "get_next_id c n = (Inr a, c')"
  shows "seq_val c' n = Some a \<and> a = (case seq_val c n of None \<Rightarrow> 1 | Some v \<Rightarrow> v + 1) \<and>
         (\<forall>m. m \<noteq> n \<longrightarrow> find_one c' m = find_one c m) \<and>
         find_one_and_update c n = Inr (find_one c' n, c')"
proof -
  from assms obtain r c1 where fam: "find_one_and_update c n = Inr (r, c1)"
    by (auto simp: get_next_id_def get_next_id_with_def split: sum.splits)
  from find_one_and_update_result[OF fam] obtain d where
    d: "r = Some d" "find_one c1 n = Some d"
       "map_of d ''sequence_value'' = Some (JInt (case seq_val c n of None \<Rightarrow> 1 | Some v \<Rightarrow> v + 1))"
    by blast
  from d(3) have ne: "d \<noteq> []" by auto
  from assms fam d ne have "c' = c1" "a = (case seq_val c n of None \<Rightarrow> 1 | Some v \<Rightarrow> v + 1)"
    by (auto simp: get_next_id_def get_next_id_with_def not_counter_def dict_get_def)
  with d fam find_one_and_update_other[OF fam] show ?thesis
    by (auto simp: seq_val_def)
qed

lemma get_next_id_raises:
  "get_next_id c n = (Inl e, c') \<Longrightarrow> c' = c \<and> seq_val c n = None \<and> find_one c n \<noteq> None"
proof -
  assume a: "get_next_id c n = (Inl e, c')"
  show ?thesis
  proof (cases "find_one_and_update c n")
    case (Inl e')
    with a find_one_and_update_error[OF Inl] show ?thesis
      by (auto simp: get_next_id_def get_next_id_with_def)
  next
    case (Inr p)
    obtain r c1 where p: "p = (r, c1)" by (cases p)
    from find_one_and_update_result[OF Inr[unfolded p]] a Inr p show ?thesis
      by (auto simp: get_next_id_def get_next_id_with_def not_counter_def dict_get_def split: if_splits)
  qed
qed

section \<open>The sequence generator: first call\<close>

text \<open>
  C1. For a sequence name with no counter document in the counters collection,
  the call to \<open>get_next_id\<close> returns 1, and the counter is created by the
  find-and-modify itself: the collection the call leaves is the one that single
  operation produced, with the new counter document holding 1.
\<close>

theorem get_next_id_creates_counter:
  "find_one c name = None \<Longrightarrow>
   get_next_id c name = (Inr 1, c @ [new_counter name]) \<and>
   find_one_and_update c name = Inr (Some (new_counter name), c @ [new_counter name]) \<and>
   find_one (c @ [new_counter name]) name = Some (new_counter name) \<and>
   seq_val (c @ [new_counter name]) name = Some 1"
  by (simp add: get_next_id_def get_next_id_with_def find_one_and_update_def not_counter_def
      dict_get_def seq_val_def find_one_def find_snoc matches_id_new_counter new_counter_value
      new_counter_not_empty)

theorem get_next_id_creates_counter_witness:
  "find_one [] ''projects'' = None \<and>
   get_next_id [] ''projects'' =
     (Inr 1, [[(''_id'', JStr ''projects''), (''sequence_value'', JInt 1)]]) \<and>
   seq_val [[(''_id'', JStr ''projects''), (''sequence_value'', JInt 1)]] ''projects'' = Some 1"
  using get_next_id_creates_counter [of "[]" "''projects''"]
  by (simp add: find_one_def new_counter_def)

section \<open>The sequence generator: fallback and totality\<close>

lemma find_update_first_app:
  "find P c = Some d \<Longrightarrow> P (f d) \<Longrightarrow> find P (update_first P f c) = Some (f d)"
  by (induction c) (auto split: if_splits)

lemma update_one_value: "seq_val (update_one c n) n = Some 1"
proof (cases "find_one c n")
  case None
  then show ?thesis
    by (simp add: update_one_def seq_val_def find_one_def find_snoc matches_id_new_counter new_counter_value)
next
  case (Some d)
  have m: "matches_id n (AList.update ''sequence_value'' (JInt 1) d)"
    using find_one_matches[OF Some] by (simp add: matches_id_update)
  have "find_one (update_one c n) n = Some (AList.update ''sequence_value'' (JInt 1) d)"
    using Some m by (simp add: update_one_def find_one_def find_update_first_app)
  then show ?thesis by (simp add: seq_val_def update_conv')
qed

lemma find_one_and_update_never_none:
  "find_one_and_update c n = Inr (r, c') \<Longrightarrow> \<not> not_counter r"
  by (drule find_one_and_update_result) (auto simp: not_counter_def)

lemma doc_ok_cases:
  "doc_ok d \<Longrightarrow> map_of d ''sequence_value'' = None \<or> (\<exists>w. map_of d ''sequence_value'' = Some (JInt w))"
  by (auto simp: doc_ok_def split: option.splits json.splits)

lemma counters_ok_alt: "counters_ok c = (\<forall>d\<in>set c. doc_ok d)"
  by (simp add: counters_ok_def list_all_iff)

lemma set_update_first: "set (update_first P (\<lambda>_. d') c) \<subseteq> insert d' (set c)"
  by (induction c) auto

lemma find_in_set: "find P c = Some d \<Longrightarrow> d \<in> set c"
  by (induction c) (auto split: if_splits)

lemma counters_ok_seq_val:
  assumes "counters_ok c" "find_one c n = Some d" "seq_val c n = None"
  shows "map_of d ''sequence_value'' = None"
proof -
  from assms(1,2) have "doc_ok d" by (auto simp: counters_ok_alt find_one_def dest: find_in_set)
  from doc_ok_cases[OF this] assms(2,3) show ?thesis by (auto simp: seq_val_def)
qed

lemma get_next_id_total:
  assumes "counters_ok c"
  shows "\<exists>v c'. get_next_id c n = (Inr v, c') \<and> counters_ok c' \<and> find_one c' n \<noteq> None"
proof -
  obtain r c' where g: "get_next_id c n = (r, c')" by (cases "get_next_id c n")
  show ?thesis
  proof (cases r)
    case (Inl e)
    with g get_next_id_raises[of c n e c'] obtain d where
      d: "find_one c n = Some d" "seq_val c n = None" by auto
    from counters_ok_seq_val[OF assms d] have "map_of d ''sequence_value'' = None" .
    with d(1) have "\<exists>p. find_one_and_update c n = Inr p"
      by (simp add: find_one_and_update_def apply_inc_def)
    then obtain r1 c1 where fam: "find_one_and_update c n = Inr (r1, c1)" by auto
    from find_one_and_update_result[OF fam] g Inl fam have False
      by (auto simp: get_next_id_def get_next_id_with_def not_counter_def dict_get_def split: if_splits)
    then show ?thesis ..
  next
    case (Inr v)
    from get_next_id_returns[OF g[unfolded Inr]] have
      sv: "seq_val c' n = Some v" and fam: "find_one_and_update c n = Inr (find_one c' n, c')"
      by auto
    from sv obtain d where d: "find_one c' n = Some d" "doc_ok d"
      by (auto simp: seq_val_def doc_ok_def split: option.splits json.splits)
    have "set c' \<subseteq> insert d (set c)"
    proof (cases "find_one c n")
      case None
      with fam d show ?thesis by (auto simp: find_one_and_update_def)
    next
      case (Some d0)
      with fam d show ?thesis
        using set_update_first[of "matches_id n" d c]
        by (auto simp: find_one_and_update_def split: sum.splits)
    qed
    with assms d(2) have "counters_ok c'" by (auto simp: counters_ok_alt)
    with g Inr d(1) show ?thesis by simp
  qed
qed

lemma get_next_id_with_fallback:
  "fam c name = Inr (None, c1) \<Longrightarrow>
   get_next_id_with fam c name = (Inr 1, update_one c1 name)"
  by (simp add: get_next_id_with_def not_counter_def)

lemma run_calls_total:
  "counters_ok c \<Longrightarrow> run_calls c ns = (rs, c') \<Longrightarrow>
   counters_ok c' \<and> (\<forall>r\<in>set rs. \<exists>v. r = Inr v)"
proof (induction ns arbitrary: c rs)
  case Nil
  then show ?case by simp
next
  case (Cons n ns)
  from get_next_id_total[OF Cons.prems(1), of n] obtain v c1 where
    g: "get_next_id c n = (Inr v, c1)" "counters_ok c1" by auto
  with Cons.prems(2) obtain rs1 where r: "run_calls c1 ns = (rs1, c')" "rs = Inr v # rs1"
    by (auto split: prod.splits)
  from Cons.IH[OF g(2) r(1)] r(2) show ?case by simp
qed

text \<open>
  C4. When the find-and-modify reports no document, \<open>get_next_id\<close> does the
  explicit upsert that sets \<^verbatim>\<open>sequence_value\<close> to 1 and returns 1. And on a
  counters collection as the data model has it, \<open>get_next_id\<close> raises for no
  sequence name, known or unknown: it returns a value, the counter document
  exists afterwards, and the collection is again as the data model has it. So
  from the empty collection, no call of any sequence of calls raises.
\<close>

theorem get_next_id_fallback_and_total:
  "(fam c name = Inr (None, c1) \<longrightarrow>
      get_next_id_with fam c name = (Inr 1, update_one c1 name) \<and>
      seq_val (update_one c1 name) name = Some 1) \<and>
   (counters_ok c \<longrightarrow>
      (\<exists>v c'. get_next_id c name = (Inr v, c') \<and> counters_ok c' \<and> find_one c' name \<noteq> None)) \<and>
   counters_ok [] \<and>
   (\<forall>r \<in> set (fst (run_calls [] names)). \<exists>v. r = Inr v)"
proof -
  have e: "counters_ok []" by (simp add: counters_ok_def)
  obtain rs c' where r: "run_calls [] names = (rs, c')" by (cases "run_calls [] names")
  from run_calls_total[OF e r] r have "\<forall>r \<in> set (fst (run_calls [] names)). \<exists>v. r = Inr v" by simp
  with e get_next_id_total[of c name] show ?thesis
    by (simp add: get_next_id_with_fallback update_one_value)
qed

theorem get_next_id_fallback_and_total_witness:
  "(\<lambda>c n. Inr (None, c)) [[(''_id'', JStr ''projects''), (''sequence_value'', JInt 4)]] ''projects''
     = (Inr (None, [[(''_id'', JStr ''projects''), (''sequence_value'', JInt 4)]])
        :: error + (document option \<times> collection)) \<and>
   get_next_id_with (\<lambda>c n. Inr (None, c))
     [[(''_id'', JStr ''projects''), (''sequence_value'', JInt 4)]] ''projects''
     = (Inr 1, [[(''_id'', JStr ''projects''), (''sequence_value'', JInt 1)]]) \<and>
   counters_ok [[(''_id'', JStr ''projects''), (''sequence_value'', JInt 4)]] \<and>
   (\<exists>v c'. get_next_id [[(''_id'', JStr ''projects''), (''sequence_value'', JInt 4)]] ''projects''
              = (Inr v, c') \<and> counters_ok c' \<and> find_one c' ''projects'' \<noteq> None) \<and>
   fst (run_calls [] [''projects'', ''clients'', ''projects'']) = [Inr 1, Inr 1, Inr 2] \<and>
   Inr 2 \<in> set (fst (run_calls [] [''projects'', ''clients'', ''projects''])) \<and>
   (\<exists>v. (Inr 2 :: error + int) = Inr v)"
proof -
  have r: "fst (run_calls [] [''projects'', ''clients'', ''projects'']) = [Inr 1, Inr 1, Inr 2]"
    by code_simp
  from get_next_id_fallback_and_total [of "\<lambda>c n. Inr (None, c)"
              "[[(''_id'', JStr ''projects''), (''sequence_value'', JInt 4)]]" "''projects''"
              "[[(''_id'', JStr ''projects''), (''sequence_value'', JInt 4)]]"
              "[''projects'', ''clients'', ''projects'']"]
  show ?thesis using r
    by (simp add: counters_ok_def doc_ok_def update_one_def find_one_def matches_id_def)
qed

section \<open>The sequence generator: values only grow\<close>

lemma get_next_id_mono:
  assumes "get_next_id c m = (r, c1)" "seq_val c n = Some v"
  shows "\<exists>v1. seq_val c1 n = Some v1 \<and> v \<le> v1 \<and> (m = n \<longrightarrow> r = Inr (v + 1))"
proof (cases r)
  case (Inl e)
  with assms get_next_id_raises[of c m e c1] show ?thesis by auto
next
  case (Inr a)
  from get_next_id_returns[OF assms(1)[unfolded Inr]] assms(2) Inr show ?thesis
    by (cases "m = n") (auto simp: seq_val_def)
qed

lemma run_calls_length: "run_calls c ns = (rs, c') \<Longrightarrow> length rs = length ns"
  by (induction ns arbitrary: c rs) (auto split: prod.splits)

lemma run_calls_mono:
  "run_calls c ns = (rs, c') \<Longrightarrow> seq_val c n = Some v \<Longrightarrow> \<exists>v'. seq_val c' n = Some v' \<and> v \<le> v'"
proof (induction ns arbitrary: c rs v)
  case Nil
  then show ?case by simp
next
  case (Cons m ns)
  obtain r c1 where g: "get_next_id c m = (r, c1)" by (cases "get_next_id c m")
  obtain rs1 where r1: "run_calls c1 ns = (rs1, c')"
    using Cons.prems(1) g by (auto split: prod.splits)
  from get_next_id_mono[OF g Cons.prems(2)] obtain v1 where v1: "seq_val c1 n = Some v1" "v \<le> v1" by auto
  from Cons.IH[OF r1 v1(1)] v1(2) show ?case by auto
qed

lemma run_calls_above:
  "run_calls c ns = (rs, c') \<Longrightarrow> seq_val c n = Some v \<Longrightarrow> j < length ns \<Longrightarrow> ns ! j = n \<Longrightarrow>
   rs ! j = Inr b \<Longrightarrow> v < b"
proof (induction ns arbitrary: c rs v j)
  case Nil
  then show ?case by simp
next
  case (Cons m ns)
  obtain r c1 where g: "get_next_id c m = (r, c1)" by (cases "get_next_id c m")
  obtain rs1 where r1: "run_calls c1 ns = (rs1, c')" and rs: "rs = r # rs1"
    using Cons.prems(1) g by (auto split: prod.splits)
  from get_next_id_mono[OF g Cons.prems(2)] obtain v1 where
    v1: "seq_val c1 n = Some v1" "v \<le> v1" "m = n \<longrightarrow> r = Inr (v + 1)" by auto
  show ?case
  proof (cases j)
    case 0
    with Cons.prems rs v1 show ?thesis by auto
  next
    case (Suc k)
    with Cons.prems rs have "k < length ns" "ns ! k = n" "rs1 ! k = Inr b" by auto
    from Cons.IH[OF r1 v1(1) this] v1(2) show ?thesis by simp
  qed
qed

lemma run_calls_increasing:
  "run_calls c ns = (rs, c') \<Longrightarrow> i < j \<Longrightarrow> j < length ns \<Longrightarrow> ns ! i = ns ! j \<Longrightarrow>
   rs ! i = Inr a \<Longrightarrow> rs ! j = Inr b \<Longrightarrow> a < b"
proof (induction ns arbitrary: c rs i j)
  case Nil
  then show ?case by simp
next
  case (Cons m ns)
  obtain r c1 where g: "get_next_id c m = (r, c1)" by (cases "get_next_id c m")
  obtain rs1 where r1: "run_calls c1 ns = (rs1, c')" and rs: "rs = r # rs1"
    using Cons.prems(1) g by (auto split: prod.splits)
  from Cons.prems(2) obtain k where j: "j = Suc k" by (cases j) auto
  show ?case
  proof (cases i)
    case 0
    with Cons.prems rs j have ra: "r = Inr a" and k: "k < length ns" "ns ! k = m" "rs1 ! k = Inr b"
      by auto
    from get_next_id_returns[OF g[unfolded ra]] have "seq_val c1 m = Some a" by simp
    from run_calls_above[OF r1 this k] show ?thesis .
  next
    case (Suc i')
    with Cons.prems rs j have "i' < k" "k < length ns" "ns ! i' = ns ! k" "rs1 ! i' = Inr a" "rs1 ! k = Inr b"
      by auto
    from Cons.IH[OF r1 this] show ?thesis .
  qed
qed


text \<open>
  C3. Over any sequence of \<open>get_next_id\<close> calls, the value a counter holds never
  goes down, for every sequence name; and the calls for one sequence name that
  return give strictly increasing integers, so that no value is handed out twice.
\<close>

theorem sequence_values_increase:
  "run_calls c names = (rs, c') \<Longrightarrow>
   (\<forall>n v. seq_val c n = Some v \<longrightarrow> (\<exists>v'. seq_val c' n = Some v' \<and> v \<le> v')) \<and>
   (\<forall>i j a b. i < j \<and> j < length names \<and> names ! i = names ! j \<and>
               rs ! i = Inr a \<and> rs ! j = Inr b \<longrightarrow> a < b)"
  using run_calls_mono[of c names rs c'] run_calls_increasing[of c names rs c']
  by blast

theorem sequence_values_increase_witness:
  "run_calls [[(''_id'', JStr ''a''), (''sequence_value'', JInt 4)]] [''a'', ''b'', ''a'']
     = ([Inr 5, Inr 1, Inr 6],
        [[(''_id'', JStr ''a''), (''sequence_value'', JInt 6)],
         [(''_id'', JStr ''b''), (''sequence_value'', JInt 1)]]) \<and>
   seq_val [[(''_id'', JStr ''a''), (''sequence_value'', JInt 4)]] ''a'' = Some 4 \<and>
   (\<exists>v'. seq_val [[(''_id'', JStr ''a''), (''sequence_value'', JInt 6)],
                   [(''_id'', JStr ''b''), (''sequence_value'', JInt 1)]] ''a'' = Some v' \<and> 4 \<le> v') \<and>
   (0::nat) < 2 \<and> (2::nat) < length [''a'', ''b'', ''a''] \<and>
   [''a'', ''b'', ''a''] ! 0 = [''a'', ''b'', ''a''] ! 2 \<and> (5::int) < 6"
proof -
  have r: "run_calls [[(''_id'', JStr ''a''), (''sequence_value'', JInt 4)]] [''a'', ''b'', ''a'']
     = ([Inr 5, Inr 1, Inr 6],
        [[(''_id'', JStr ''a''), (''sequence_value'', JInt 6)],
         [(''_id'', JStr ''b''), (''sequence_value'', JInt 1)]])"
    by code_simp
  have s: "seq_val [[(''_id'', JStr ''a''), (''sequence_value'', JInt 4)]] ''a'' = Some 4"
    by code_simp
  from sequence_values_increase[OF r] s show ?thesis
    using r by simp
qed

section \<open>The sequence generator under concurrent calls\<close>

lemma step_call_pending:
  "step_call (Pending n) c =
     (case get_next_id c n of (Inl e, c') \<Rightarrow> (Raised n e, c') | (Inr a, c') \<Rightarrow> (Returned n a, c'))"
proof (cases "find_one_and_update c n")
  case (Inl e)
  then show ?thesis by (simp add: step_call_def get_next_id_def get_next_id_with_def)
next
  case (Inr p)
  obtain r c1 where p: "p = (r, c1)" by (cases p)
  from find_one_and_update_never_none[OF Inr[unfolded p]] Inr p show ?thesis
    by (simp add: step_call_def get_next_id_def get_next_id_with_def split: sum.splits)
qed

lemma calls_inv_initial: "calls_inv (map Pending names) c"
  by (auto simp: calls_inv_def)

lemma calls_inv_raised:
  assumes "calls_inv ts c" "i < length ts" "ts ! i = Pending n"
  shows "calls_inv (ts[i := Raised n e]) c"
  unfolding calls_inv_def
proof (intro conjI allI impI)
  fix m show "Fallback m \<notin> set (ts[i := Raised n e])"
    using assms(1) set_update_subset_insert[of ts i "Raised n e"] by (auto simp: calls_inv_def)
next
  fix k m a assume "k < length (ts[i := Raised n e]) \<and> ts[i := Raised n e] ! k = Returned m a"
  then have "k < length ts" "ts ! k = Returned m a"
    using assms(2) by (auto simp: nth_list_update split: if_splits)
  with assms(1) show "\<exists>w. seq_val c m = Some w \<and> a \<le> w" unfolding calls_inv_def by blast
next
  fix k j m a b
  assume "k < j \<and> j < length (ts[i := Raised n e]) \<and> ts[i := Raised n e] ! k = Returned m a \<and>
          ts[i := Raised n e] ! j = Returned m b"
  then have "k < j" "j < length ts" "ts ! k = Returned m a" "ts ! j = Returned m b"
    using assms(2) by (auto simp: nth_list_update split: if_splits)
  with assms(1) show "a \<noteq> b" unfolding calls_inv_def by blast
qed

lemma calls_inv_returned:
  assumes inv: "calls_inv ts c" and i: "i < length ts" "ts ! i = Pending n"
    and g: "get_next_id c n = (Inr a, c')"
  shows "calls_inv (ts[i := Returned n a]) c'"
proof -
  from get_next_id_returns[OF g] have
    sv: "seq_val c' n = Some a" and a: "a = (case seq_val c n of None \<Rightarrow> 1 | Some v \<Rightarrow> v + 1)"
    and other: "\<And>m. m \<noteq> n \<Longrightarrow> find_one c' m = find_one c m"
    by auto
  have old: "\<exists>w. seq_val c m = Some w \<and> b \<le> w" if "k < length ts" "ts ! k = Returned m b" for k m b
    using inv that unfolding calls_inv_def by blast
  have bound: "\<exists>w. seq_val c' m = Some w \<and> b \<le> w \<and> (m = n \<longrightarrow> b < a)"
    if "k < length ts" "ts ! k = Returned m b" for k m b
  proof (cases "m = n")
    case True
    from old[OF that] obtain w where "seq_val c n = Some w" "b \<le> w" using True by auto
    with a sv True show ?thesis by auto
  next
    case False
    from other[OF False] have "seq_val c' m = seq_val c m" by (simp add: seq_val_def)
    with old[OF that] False show ?thesis by auto
  qed
  show ?thesis unfolding calls_inv_def
  proof (intro conjI allI impI)
    fix m show "Fallback m \<notin> set (ts[i := Returned n a])"
      using inv set_update_subset_insert[of ts i "Returned n a"] by (auto simp: calls_inv_def)
  next
    fix k m b assume h: "k < length (ts[i := Returned n a]) \<and> ts[i := Returned n a] ! k = Returned m b"
    show "\<exists>w. seq_val c' m = Some w \<and> b \<le> w"
    proof (cases "k = i")
      case True
      with h i sv show ?thesis by auto
    next
      case False
      with h have "k < length ts" "ts ! k = Returned m b" by auto
      from bound[OF this] show ?thesis by auto
    qed
  next
    fix k j m b1 b2
    assume h: "k < j \<and> j < length (ts[i := Returned n a]) \<and> ts[i := Returned n a] ! k = Returned m b1 \<and>
          ts[i := Returned n a] ! j = Returned m b2"
    show "b1 \<noteq> b2"
    proof (cases "k = i")
      case True
      with h i have "m = n" "b1 = a" "j < length ts" "ts ! j = Returned m b2" by auto
      with bound[of j m b2] show ?thesis by auto
    next
      case ki: False
      show ?thesis
      proof (cases "j = i")
        case True
        with h i ki have "m = n" "b2 = a" "k < length ts" "ts ! k = Returned m b1" by auto
        with bound[of k m b1] show ?thesis by auto
      next
        case False
        with h ki have "k < j" "j < length ts" "ts ! k = Returned m b1" "ts ! j = Returned m b2" by auto
        with inv show ?thesis unfolding calls_inv_def by blast
      qed
    qed
  qed
qed

lemma step_inv:
  assumes inv: "calls_inv ts c" and st: "step i (ts, c) = (ts', c')"
  shows "calls_inv ts' c'"
proof (cases "i < length ts")
  case False
  with st inv show ?thesis by (simp add: step_def)
next
  case True
  show ?thesis
  proof (cases "ts ! i")
    case (Pending n)
    obtain r c1 where g: "get_next_id c n = (r, c1)" by (cases "get_next_id c n")
    show ?thesis
    proof (cases r)
      case (Inl e)
      with g get_next_id_raises[of c n e c1] have "c1 = c" by simp
      with st True Pending g Inl have "ts' = ts[i := Raised n e]" "c' = c"
        by (auto simp: step_def step_call_pending)
      with calls_inv_raised[OF inv True Pending] show ?thesis by simp
    next
      case (Inr a)
      with st True Pending g have "ts' = ts[i := Returned n a]" "c' = c1"
        by (auto simp: step_def step_call_pending)
      with calls_inv_returned[OF inv True Pending g[unfolded Inr]] show ?thesis by simp
    qed
  next
    case (Fallback m)
    with True have "Fallback m \<in> set ts" by (metis nth_mem)
    with inv show ?thesis by (simp add: calls_inv_def)
  next
    case (Returned n a)
    with st True have "ts' = ts[i := ts ! i]" "c' = c" by (auto simp: step_def step_call_def)
    with inv show ?thesis by simp
  next
    case (Raised n e)
    with st True have "ts' = ts[i := ts ! i]" "c' = c" by (auto simp: step_def step_call_def)
    with inv show ?thesis by simp
  qed
qed

lemma run_inv:
  "calls_inv ts c \<Longrightarrow> run sched (ts, c) = (ts', c') \<Longrightarrow> calls_inv ts' c'"
proof (induction sched arbitrary: ts c)
  case Nil
  then show ?case by (simp add: run_def)
next
  case (Cons i sched)
  obtain ts1 c1 where s: "step i (ts, c) = (ts1, c1)" by (cases "step i (ts, c)")
  from Cons.prems(2) s have "run sched (ts1, c1) = (ts', c')" by (simp add: run_def)
  from Cons.IH[OF step_inv[OF Cons.prems(1) s] this] show ?case .
qed

lemma set_update_first_image: "set (update_first P f c) \<subseteq> set c \<union> f ` set c"
  by (induction c) auto

lemma counters_ok_update_one: "counters_ok c \<Longrightarrow> counters_ok (update_one c n)"
proof (cases "find_one c n")
  case None
  assume "counters_ok c"
  with None show ?thesis
    by (simp add: update_one_def counters_ok_def doc_ok_def new_counter_value)
next
  case (Some d)
  assume ok: "counters_ok c"
  have "doc_ok (AList.update ''sequence_value'' (JInt 1) e)" for e
    by (simp add: doc_ok_def update_conv')
  with ok set_update_first_image[of "matches_id n" "AList.update ''sequence_value'' (JInt 1)" c]
  show ?thesis using Some by (auto simp: update_one_def counters_ok_alt)
qed

lemma step_call_progress:
  assumes ok: "counters_ok c" and st: "step_call t c = (t', c')"
  shows "counters_ok c' \<and> (\<forall>n. t = Pending n \<longrightarrow> (\<exists>a. t' = Returned n a)) \<and>
         (\<forall>n a. t = Returned n a \<longrightarrow> t' = t)"
proof (cases t)
  case (Pending n)
  from get_next_id_total[OF ok, of n] obtain v c1 where
    g: "get_next_id c n = (Inr v, c1)" "counters_ok c1" by auto
  with st Pending show ?thesis by (auto simp: step_call_pending)
next
  case (Fallback n)
  with st counters_ok_update_one[OF ok, of n] show ?thesis by (auto simp: step_call_def)
next
  case (Returned n a)
  with st ok show ?thesis by (auto simp: step_call_def)
next
  case (Raised n e)
  with st ok show ?thesis by (auto simp: step_call_def)
qed

lemma run_progress:
  "counters_ok c \<Longrightarrow> run sched (ts, c) = (ts', c') \<Longrightarrow>
   counters_ok c' \<and> length ts' = length ts \<and>
   (\<forall>k n. k < length ts \<and> ((\<exists>a. ts ! k = Returned n a) \<or> (ts ! k = Pending n \<and> k \<in> set sched))
          \<longrightarrow> (\<exists>a. ts' ! k = Returned n a))"
proof (induction sched arbitrary: ts c)
  case Nil
  then show ?case by (auto simp: run_def)
next
  case (Cons i sched)
  obtain ts1 c1 where s: "step i (ts, c) = (ts1, c1)" by (cases "step i (ts, c)")
  from Cons.prems(2) s have r: "run sched (ts1, c1) = (ts', c')" by (simp add: run_def)
  have s1: "counters_ok c1 \<and> length ts1 = length ts \<and>
        (\<forall>k n. k < length ts \<and> ((\<exists>a. ts ! k = Returned n a) \<or> (ts ! k = Pending n \<and> k \<in> set (i # sched)))
          \<longrightarrow> ((\<exists>a. ts1 ! k = Returned n a) \<or> (ts1 ! k = Pending n \<and> k \<in> set sched)))"
  proof (cases "i < length ts")
    case False
    with s Cons.prems(1) show ?thesis by (auto simp: step_def)
  next
    case True
    obtain t1 where sc: "step_call (ts ! i) c = (t1, c1)" and ts1: "ts1 = ts[i := t1]"
      using s True by (auto simp: step_def split: prod.splits)
    from step_call_progress[OF Cons.prems(1) sc] True ts1 show ?thesis
      by (auto simp: nth_list_update)
  qed
  from Cons.IH[of c1 ts1] s1 r show ?case by auto
qed

text \<open>
  C2. Concurrent calls to \<open>get_next_id\<close>, interleaved in any order over the
  shared counters collection: no call ever enters the fallback branch, so all of
  them take the atomic find-and-modify path, and any two calls for the same
  sequence name that have returned hold different values. On counters as the data
  model has them, every call that was scheduled has returned.
\<close>

theorem concurrent_ids_distinct:
  "run sched (map Pending names, c) = (ts, c') \<Longrightarrow>
   (\<forall>m. Fallback m \<notin> set ts) \<and>
   (\<forall>i j n a b. i < j \<and> j < length ts \<and> ts ! i = Returned n a \<and> ts ! j = Returned n b
                 \<longrightarrow> a \<noteq> b) \<and>
   (counters_ok c \<longrightarrow>
      (\<forall>i. i < length names \<and> i \<in> set sched \<longrightarrow> (\<exists>a. ts ! i = Returned (names ! i) a)))"
  using run_inv[OF calls_inv_initial, of sched names c ts c'] run_progress[of c sched "map Pending names" ts c']
  by (simp add: calls_inv_def)

theorem concurrent_ids_distinct_witness:
  "run [2, 0, 1] (map Pending [''projects'', ''projects'', ''projects''], [])
     = ([Returned ''projects'' 2, Returned ''projects'' 3, Returned ''projects'' 1],
        [[(''_id'', JStr ''projects''), (''sequence_value'', JInt 3)]]) \<and>
   (0::nat) < 1 \<and>
   1 < length [Returned ''projects'' 2, Returned ''projects'' 3, Returned ''projects'' 1] \<and>
   [Returned ''projects'' 2, Returned ''projects'' 3, Returned ''projects'' 1] ! 0 = Returned ''projects'' 2 \<and>
   [Returned ''projects'' 2, Returned ''projects'' 3, Returned ''projects'' 1] ! 1 = Returned ''projects'' 3 \<and>
   (2::int) \<noteq> 3 \<and> counters_ok [] \<and> (0::nat) \<in> set [2, 0, 1]"
proof -
  have r: "run [2, 0, 1] (map Pending [''projects'', ''projects'', ''projects''], [])
     = ([Returned ''projects'' 2, Returned ''projects'' 3, Returned ''projects'' 1],
        [[(''_id'', JStr ''projects''), (''sequence_value'', JInt 3)]])"
    by code_simp
  from concurrent_ids_distinct[OF r] show ?thesis using r by (simp add: counters_ok_def)
qed

section \<open>The read endpoints\<close>

lemma find_without_id_spec:
  "length (find_without_id c) = length c \<and>
   (\<forall>i. i < length c \<longrightarrow>
      map_of (find_without_id c ! i) ''_id'' = None \<and>
      (\<forall>k. k \<noteq> ''_id'' \<longrightarrow> map_of (find_without_id c ! i) k = map_of (c ! i) k))"
  by (simp add: find_without_id_def delete_conv')

text \<open>
  C8. In every state of the store, each read endpoint answers with one element
  per stored document of its collection, in the store's order; no element has an
  \<^verbatim>\<open>_id\<close> field, and every other field is as stored. The store is left as it was.
\<close>

theorem read_endpoints_return_all_without_id:
  "get_projects s = (Response (JObj [(''projects'', JArr (map JObj (find_without_id (projects_collection s))))]) 200, s) \<and>
   get_clients s = (Response (JObj [(''clients'', JArr (map JObj (find_without_id (clients_collection s))))]) 200, s) \<and>
   get_all_contacts s = (Response (JObj [(''contacts'', JArr (map JObj (find_without_id (contacts_collection s))))]) 200, s) \<and>
   get_all_subscribers s = (Response (JObj [(''subscribers'', JArr (map JObj (find_without_id (subscribers_collection s))))]) 200, s) \<and>
   (\<forall>c \<in> {projects_collection s, clients_collection s, contacts_collection s, subscribers_collection s}.
      length (find_without_id c) = length c \<and>
      (\<forall>i. i < length c \<longrightarrow>
         map_of (find_without_id c ! i) ''_id'' = None \<and>
         (\<forall>k. k \<noteq> ''_id'' \<longrightarrow> map_of (find_without_id c ! i) k = map_of (c ! i) k)))"
  using find_without_id_spec
  by (simp add: get_projects_def get_clients_def get_all_contacts_def get_all_subscribers_def jsonify_def)

theorem read_endpoints_return_all_without_id_witness:
  "get_projects \<lparr>projects_collection = [[(''_id'', ObjectId 7), (''id'', JInt 1), (''name'', JStr ''X'')]],
                 clients_collection = [], contacts_collection = [], subscribers_collection = [],
                 counter_collection = [], next_oid = 8\<rparr>
     = (Response (JObj [(''projects'', JArr [JObj [(''id'', JInt 1), (''name'', JStr ''X'')]])]) 200,
        \<lparr>projects_collection = [[(''_id'', ObjectId 7), (''id'', JInt 1), (''name'', JStr ''X'')]],
                 clients_collection = [], contacts_collection = [], subscribers_collection = [],
                 counter_collection = [], next_oid = 8\<rparr>) \<and>
   (0::nat) < length [[(''_id'', ObjectId 7), (''id'', JInt 1), (''name'', JStr ''X'')]] \<and>
   map_of (find_without_id [[(''_id'', ObjectId 7), (''id'', JInt 1), (''name'', JStr ''X'')]] ! 0) ''_id'' = None \<and>
   ''name'' \<noteq> ''_id'' \<and>
   map_of (find_without_id [[(''_id'', ObjectId 7), (''id'', JInt 1), (''name'', JStr ''X'')]] ! 0) ''name''
     = Some (JStr ''X'')"
  using read_endpoints_return_all_without_id
          [of "\<lparr>projects_collection = [[(''_id'', ObjectId 7), (''id'', JInt 1), (''name'', JStr ''X'')]],
                 clients_collection = [], contacts_collection = [], subscribers_collection = [],
                 counter_collection = [], next_oid = 8\<rparr>"]
  by (simp add: find_without_id_def)

section \<open>Validation in the admin routes\<close>

text \<open>
  C6. A request to \<open>add_project\<close> without an \<^verbatim>\<open>image\<close> file part is answered 400
  whatever its other fields are; and one with an image part whose name or
  description is missing or empty is answered 400.
\<close>

theorem add_project_validation:
  "(map_of (files req) ''image'' = None \<longrightarrow>
      add_project req s = (Response (JObj [(''error'', JStr ''No image uploaded'')]) 400, s)) \<and>
   (map_of (files req) ''image'' = Some file \<and>
    (map_of (form req) ''name'' = None \<or> map_of (form req) ''name'' = Some [] \<or>
     map_of (form req) ''description'' = None \<or> map_of (form req) ''description'' = Some []) \<longrightarrow>
      add_project req s = (Response (JObj [(''error'', JStr ''Name and description are required'')]) 400, s))"
  by (auto simp: add_project_def jsonify_def form_get_def)

theorem add_project_validation_witness:
  "map_of (files \<lparr>json_body = Inr JNull, files = [], form = [(''name'', ''X''), (''description'', ''Y'')]\<rparr>) ''image'' = None \<and>
   add_project \<lparr>json_body = Inr JNull, files = [], form = [(''name'', ''X''), (''description'', ''Y'')]\<rparr>
       \<lparr>projects_collection = [], clients_collection = [], contacts_collection = [],
        subscribers_collection = [], counter_collection = [], next_oid = 0\<rparr>
     = (Response (JObj [(''error'', JStr ''No image uploaded'')]) 400,
        \<lparr>projects_collection = [], clients_collection = [], contacts_collection = [],
         subscribers_collection = [], counter_collection = [], next_oid = 0\<rparr>) \<and>
   map_of (files \<lparr>json_body = Inr JNull,
                  files = [(''image'', \<lparr>filename = Some ''a.jpg'', content_type = Some ''image/jpeg'', content = [0xFF]\<rparr>)],
                  form = [(''name'', ''X''), (''description'', [])]\<rparr>) ''image''
     = Some \<lparr>filename = Some ''a.jpg'', content_type = Some ''image/jpeg'', content = [0xFF]\<rparr> \<and>
   map_of (form \<lparr>json_body = Inr JNull,
                 files = [(''image'', \<lparr>filename = Some ''a.jpg'', content_type = Some ''image/jpeg'', content = [0xFF]\<rparr>)],
                 form = [(''name'', ''X''), (''description'', [])]\<rparr>) ''description'' = Some [] \<and>
   add_project \<lparr>json_body = Inr JNull,
                files = [(''image'', \<lparr>filename = Some ''a.jpg'', content_type = Some ''image/jpeg'', content = [0xFF]\<rparr>)],
                form = [(''name'', ''X''), (''description'', [])]\<rparr>
       \<lparr>projects_collection = [], clients_collection = [], contacts_collection = [],
        subscribers_collection = [], counter_collection = [], next_oid = 0\<rparr>
     = (Response (JObj [(''error'', JStr ''Name and description are required'')]) 400,
        \<lparr>projects_collection = [], clients_collection = [], contacts_collection = [],
         subscribers_collection = [], counter_collection = [], next_oid = 0\<rparr>)"
  using add_project_validation
          [of "\<lparr>json_body = Inr JNull, files = [], form = [(''name'', ''X''), (''description'', ''Y'')]\<rparr>"
              "\<lparr>projects_collection = [], clients_collection = [], contacts_collection = [],
                subscribers_collection = [], counter_collection = [], next_oid = 0\<rparr>"]
        add_project_validation
          [of "\<lparr>json_body = Inr JNull,
                files = [(''image'', \<lparr>filename = Some ''a.jpg'', content_type = Some ''image/jpeg'', content = [0xFF]\<rparr>)],
                form = [(''name'', ''X''), (''description'', [])]\<rparr>"
              "\<lparr>projects_collection = [], clients_collection = [], contacts_collection = [],
                subscribers_collection = [], counter_collection = [], next_oid = 0\<rparr>"
              "\<lparr>filename = Some ''a.jpg'', content_type = Some ''image/jpeg'', content = [0xFF]\<rparr>"]
  by simp

text \<open>
  C10. A request to \<open>add_project\<close> or \<open>add_client\<close> that is answered 400 leaves
  the store exactly as it was: no counter is incremented and no document is
  inserted in any collection.
\<close>

theorem validation_error_changes_nothing:
  "(add_project req s = (Response body 400, s') \<longrightarrow> s' = s) \<and>
   (add_client req s = (Response body 400, s') \<longrightarrow> s' = s)"
  by (auto simp: add_project_def add_client_def jsonify_def server_error_def Let_def
      split: option.splits if_splits prod.splits sum.splits)

theorem validation_error_changes_nothing_witness:
  "add_project \<lparr>json_body = Inr JNull, files = [], form = [(''name'', ''X'')]\<rparr>
       \<lparr>projects_collection = [], clients_collection = [], contacts_collection = [],
        subscribers_collection = [],
        counter_collection = [[(''_id'', JStr ''projects''), (''sequence_value'', JInt 3)]], next_oid = 5\<rparr>
     = (Response (JObj [(''error'', JStr ''No image uploaded'')]) 400,
        \<lparr>projects_collection = [], clients_collection = [], contacts_collection = [],
         subscribers_collection = [],
         counter_collection = [[(''_id'', JStr ''projects''), (''sequence_value'', JInt 3)]], next_oid = 5\<rparr>) \<and>
   add_client \<lparr>json_body = Inr JNull,
               files = [(''image'', \<lparr>filename = Some ''a.png'', content_type = Some ''image/png'', content = [1]\<rparr>)],
               form = [(''name'', ''X''), (''description'', ''Y'')]\<rparr>
       \<lparr>projects_collection = [], clients_collection = [], contacts_collection = [],
        subscribers_collection = [],
        counter_collection = [[(''_id'', JStr ''clients''), (''sequence_value'', JInt 3)]], next_oid = 5\<rparr>
     = (Response (JObj [(''error'', JStr ''Name, description, and designation are required'')]) 400,
        \<lparr>projects_collection = [], clients_collection = [], contacts_collection = [],
         subscribers_collection = [],
         counter_collection = [[(''_id'', JStr ''clients''), (''sequence_value'', JInt 3)]], next_oid = 5\<rparr>)"
proof -
  obtain s1 where a: "add_project \<lparr>json_body = Inr JNull, files = [], form = [(''name'', ''X'')]\<rparr>
       \<lparr>projects_collection = [], clients_collection = [], contacts_collection = [],
        subscribers_collection = [],
        counter_collection = [[(''_id'', JStr ''projects''), (''sequence_value'', JInt 3)]], next_oid = 5\<rparr>
     = (Response (JObj [(''error'', JStr ''No image uploaded'')]) 400, s1)"
    by (simp add: add_project_def jsonify_def)
  obtain s2 where b: "add_client \<lparr>json_body = Inr JNull,
               files = [(''image'', \<lparr>filename = Some ''a.png'', content_type = Some ''image/png'', content = [1]\<rparr>)],
               form = [(''name'', ''X''), (''description'', ''Y'')]\<rparr>
       \<lparr>projects_collection = [], clients_collection = [], contacts_collection = [],
        subscribers_collection = [],
        counter_collection = [[(''_id'', JStr ''clients''), (''sequence_value'', JInt 3)]], next_oid = 5\<rparr>
     = (Response (JObj [(''error'', JStr ''Name, description, and designation are required'')]) 400, s2)"
    by (simp add: add_client_def jsonify_def form_get_def)
  from validation_error_changes_nothing[THEN conjunct1, rule_format, OF a]
       validation_error_changes_nothing[THEN conjunct2, rule_format, OF b]
  show ?thesis using a b by simp
qed

section \<open>An image part that is falsy\<close>

lemma form_get_truthy: "truthy (form_get f k) = (\<exists>v. map_of f k = Some v \<and> v \<noteq> [])"
  by (auto simp: form_get_def split: option.splits)

text \<open>
  C9. As stated, for every request whose image part is present but falsy, the
  claim fails: the check of the form fields comes first, and with a missing name
  the 400 answer fires.
\<close>

theorem falsy_image_missing_name_counterexample:
  "map_of (files \<lparr>json_body = Inr JNull,
                  files = [(''image'', \<lparr>filename = Some [], content_type = None, content = []\<rparr>)],
                  form = [(''description'', ''Y'')]\<rparr>) ''image''
     = Some \<lparr>filename = Some [], content_type = None, content = []\<rparr> \<and>
   \<not> file_truthy \<lparr>filename = Some [], content_type = None, content = []\<rparr> \<and>
   add_project \<lparr>json_body = Inr JNull,
                files = [(''image'', \<lparr>filename = Some [], content_type = None, content = []\<rparr>)],
                form = [(''description'', ''Y'')]\<rparr>
       \<lparr>projects_collection = [], clients_collection = [], contacts_collection = [],
        subscribers_collection = [], counter_collection = [], next_oid = 0\<rparr>
     = (Response (JObj [(''error'', JStr ''Name and description are required'')]) 400,
        \<lparr>projects_collection = [], clients_collection = [], contacts_collection = [],
         subscribers_collection = [], counter_collection = [], next_oid = 0\<rparr>) \<and>
   fst (add_project \<lparr>json_body = Inr JNull,
                files = [(''image'', \<lparr>filename = Some [], content_type = None, content = []\<rparr>)],
                form = [(''description'', ''Y'')]\<rparr>
       \<lparr>projects_collection = [], clients_collection = [], contacts_collection = [],
        subscribers_collection = [], counter_collection = [], next_oid = 0\<rparr>) \<noteq> NoResponse"
  by (simp add: add_project_def file_truthy_def form_get_def jsonify_def)

text \<open>
  C9, amended. When the image part is present but falsy and the required form
  fields are all present and non-empty (name and description, and designation
  for \<open>add_client\<close>), the handler returns nothing: no 400, no 201, no 500, and
  the store is as it was.
\<close>

theorem falsy_image_no_response:
  "map_of (files req) ''image'' = Some file \<and> \<not> file_truthy file \<and>
   map_of (form req) ''name'' = Some n \<and> n \<noteq> [] \<and>
   map_of (form req) ''description'' = Some d \<and> d \<noteq> [] \<longrightarrow>
     add_project req s = (NoResponse, s) \<and>
     (map_of (form req) ''designation'' = Some g \<and> g \<noteq> [] \<longrightarrow> add_client req s = (NoResponse, s))"
  by (simp add: add_project_def add_client_def form_get_def)

theorem falsy_image_no_response_witness:
  "map_of (files \<lparr>json_body = Inr JNull,
                  files = [(''image'', \<lparr>filename = Some [], content_type = None, content = []\<rparr>)],
                  form = [(''name'', ''X''), (''description'', ''Y''), (''designation'', ''Z'')]\<rparr>) ''image''
     = Some \<lparr>filename = Some [], content_type = None, content = []\<rparr> \<and>
   \<not> file_truthy \<lparr>filename = Some [], content_type = None, content = []\<rparr> \<and>
   add_project \<lparr>json_body = Inr JNull,
                files = [(''image'', \<lparr>filename = Some [], content_type = None, content = []\<rparr>)],
                form = [(''name'', ''X''), (''description'', ''Y''), (''designation'', ''Z'')]\<rparr>
       \<lparr>projects_collection = [], clients_collection = [], contacts_collection = [],
        subscribers_collection = [], counter_collection = [], next_oid = 0\<rparr>
     = (NoResponse,
        \<lparr>projects_collection = [], clients_collection = [], contacts_collection = [],
         subscribers_collection = [], counter_collection = [], next_oid = 0\<rparr>) \<and>
   add_client \<lparr>json_body = Inr JNull,
                files = [(''image'', \<lparr>filename = Some [], content_type = None, content = []\<rparr>)],
                form = [(''name'', ''X''), (''description'', ''Y''), (''designation'', ''Z'')]\<rparr>
       \<lparr>projects_collection = [], clients_collection = [], contacts_collection = [],
        subscribers_collection = [], counter_collection = [], next_oid = 0\<rparr>
     = (NoResponse,
        \<lparr>projects_collection = [], clients_collection = [], contacts_collection = [],
         subscribers_collection = [], counter_collection = [], next_oid = 0\<rparr>)"
  using falsy_image_no_response
          [of "\<lparr>json_body = Inr JNull,
                files = [(''image'', \<lparr>filename = Some [], content_type = None, content = []\<rparr>)],
                form = [(''name'', ''X''), (''description'', ''Y''), (''designation'', ''Z'')]\<rparr>"
              "\<lparr>filename = Some [], content_type = None, content = []\<rparr>"
              "''X''" "''Y''"
              "\<lparr>projects_collection = [], clients_collection = [], contacts_collection = [],
                subscribers_collection = [], counter_collection = [], next_oid = 0\<rparr>"
              "''Z''"]
  by (simp add: file_truthy_def)

section \<open>A project that is created\<close>

lemma insert_one_generates:
  "map_of d ''_id'' = None \<Longrightarrow>
   insert_one c oid (JObj d) =
     (case bson_refusal ((''_id'', ObjectId oid) # d) of
        Some e \<Rightarrow> Inl e
      | None \<Rightarrow> Inr (ObjectId oid, c @ [(''_id'', ObjectId oid) # d], Suc oid))"
  by (simp add: insert_one_def)

lemma get_next_id_last_issued:
  "get_next_id c n = (Inr a, c') \<Longrightarrow>
   a = last_issued c n + 1 \<and> last_issued c' n = a"
  by (drule get_next_id_returns) (auto simp: last_issued_def split: option.splits)

lemma add_project_ok_path:
  assumes "map_of (files req) ''image'' = Some file"
    and "map_of (form req) ''name'' = Some name" "name \<noteq> []"
    and "map_of (form req) ''description'' = Some description" "description \<noteq> []"
    and "file_truthy file"
    and "get_next_id (counter_collection s) ''projects'' = (Inr pid, cc)"
    and "bson_refusal
           [(''_id'', ObjectId (next_oid s)), (''id'', JInt pid), (''name'', JStr name),
            (''description'', JStr description), (''image_url'', JStr (image_url_of file))] = None"
  shows "add_project req s =
     (Response
        (JObj [(''message'', JStr ''Project created''),
               (''data'',
                JObj [(''id'', JInt pid), (''name'', JStr name), (''description'', JStr description),
                      (''image_url'', JStr (image_url_of file)),
                      (''_id'', JStr (str_oid (next_oid s)))])])
        201,
      s\<lparr>counter_collection := cc,
        projects_collection :=
          projects_collection s @
            [[(''_id'', ObjectId (next_oid s)), (''id'', JInt pid), (''name'', JStr name),
              (''description'', JStr description), (''image_url'', JStr (image_url_of file))]],
        next_oid := Suc (next_oid s)\<rparr>)"
  using assms
  by (simp add: add_project_def form_get_def jsonify_def insert_one_generates Let_def)

lemma add_project_created_aux:
  assumes ok: "add_project req s = (Response body 201, s')"
    and img: "map_of (files req) ''image'' = Some file"
  shows "\<exists>name description pid cc.
           map_of (form req) ''name'' = Some name \<and> name \<noteq> [] \<and>
           map_of (form req) ''description'' = Some description \<and> description \<noteq> [] \<and>
           file_truthy file \<and>
           get_next_id (counter_collection s) ''projects'' = (Inr pid, cc) \<and>
           bson_refusal
             [(''_id'', ObjectId (next_oid s)), (''id'', JInt pid), (''name'', JStr name),
              (''description'', JStr description), (''image_url'', JStr (image_url_of file))] = None"
proof -
  have t: "truthy (form_get (form req) ''name'') \<and> truthy (form_get (form req) ''description'')"
  proof (rule ccontr)
    assume "\<not> ?thesis"
    with img have "add_project req s =
        (jsonify (JObj [(''error'', JStr ''Name and description are required'')]) 400, s)"
      by (simp add: add_project_def)
    with ok show False by (simp add: jsonify_def)
  qed
  have ft: "file_truthy file"
  proof (rule ccontr)
    assume "\<not> ?thesis"
    with img t have "add_project req s = (NoResponse, s)"
      by (simp add: add_project_def)
    with ok show False by simp
  qed
  obtain r cc where g: "get_next_id (counter_collection s) ''projects'' = (r, cc)"
    by (cases "get_next_id (counter_collection s) ''projects''")
  have "\<exists>pid. r = Inr pid"
  proof (cases r)
    case (Inl e)
    with img t ft g have "add_project req s = (server_error e, s\<lparr>counter_collection := cc\<rparr>)"
      by (simp add: add_project_def)
    with ok show ?thesis by (simp add: server_error_def jsonify_def)
  next
    case (Inr pid)
    then show ?thesis by simp
  qed
  then obtain pid where r: "r = Inr pid" by blast
  from t obtain name description where
    nd: "map_of (form req) ''name'' = Some name" "name \<noteq> []"
        "map_of (form req) ''description'' = Some description" "description \<noteq> []"
    by (auto simp: form_get_truthy)
  have "bson_refusal
          [(''_id'', ObjectId (next_oid s)), (''id'', JInt pid), (''name'', JStr name),
           (''description'', JStr description), (''image_url'', JStr (image_url_of file))] = None"
  proof (rule ccontr)
    assume "\<not> ?thesis"
    then obtain e where "bson_refusal
          [(''_id'', ObjectId (next_oid s)), (''id'', JInt pid), (''name'', JStr name),
           (''description'', JStr description), (''image_url'', JStr (image_url_of file))] = Some e"
      by auto
    with img nd ft g r have "add_project req s = (server_error e, s\<lparr>counter_collection := cc\<rparr>)"
      by (simp add: add_project_def form_get_def insert_one_generates Let_def)
    with ok show False by (simp add: server_error_def jsonify_def)
  qed
  with nd ft g r show ?thesis by blast
qed

text \<open>
  C7. A request to \<open>add_project\<close> that is answered 201, with an image file of
  content type \<open>T\<close> and bytes \<open>B\<close>: the form has a name and a description; the
  answer's \<^verbatim>\<open>data\<close> holds \<^verbatim>\<open>id\<close>, one more than the highest value issued so far
  for \<^verbatim>\<open>projects\<close>, the name, the description, \<^verbatim>\<open>image_url\<close> equal to
  \<^verbatim>\<open>data:\<close> \<open>T\<close> \<^verbatim>\<open>;base64,\<close> and the base64 text of \<open>B\<close>, and the store's identifier
  as a string under \<^verbatim>\<open>_id\<close>; the document appended to the projects collection
  is these four fields under the store's identifier.
\<close>

theorem add_project_created:
  assumes "add_project req s = (Response body 201, s')"
    and "map_of (files req) ''image'' = Some file"
    and "content_type file = Some T"
  shows "\<exists>name description.
           map_of (form req) ''name'' = Some name \<and>
           map_of (form req) ''description'' = Some description \<and>
           body = JObj [(''message'', JStr ''Project created''),
                        (''data'',
                         JObj [(''id'', JInt (last_issued (counter_collection s) ''projects'' + 1)),
                               (''name'', JStr name),
                               (''description'', JStr description),
                               (''image_url'', JStr (''data:'' @ T @ '';base64,'' @ b64encode (content file))),
                               (''_id'', JStr (str_oid (next_oid s)))])] \<and>
           projects_collection s' =
             projects_collection s @
               [[(''_id'', ObjectId (next_oid s)),
                 (''id'', JInt (last_issued (counter_collection s) ''projects'' + 1)),
                 (''name'', JStr name),
                 (''description'', JStr description),
                 (''image_url'', JStr (''data:'' @ T @ '';base64,'' @ b64encode (content file)))]] \<and>
           last_issued (counter_collection s') ''projects''
             = last_issued (counter_collection s) ''projects'' + 1"
proof -
  from add_project_created_aux[OF assms(1,2)] obtain name description pid cc where
    nd: "map_of (form req) ''name'' = Some name" "name \<noteq> []"
        "map_of (form req) ''description'' = Some description" "description \<noteq> []"
    and ft: "file_truthy file"
    and g: "get_next_id (counter_collection s) ''projects'' = (Inr pid, cc)"
    and b: "bson_refusal
             [(''_id'', ObjectId (next_oid s)), (''id'', JInt pid), (''name'', JStr name),
              (''description'', JStr description), (''image_url'', JStr (image_url_of file))] = None"
    by blast
  note li = get_next_id_last_issued[OF g]
  from add_project_ok_path[OF assms(2) nd ft g b] assms(1) have
    "body = JObj [(''message'', JStr ''Project created''),
                  (''data'',
                   JObj [(''id'', JInt pid), (''name'', JStr name), (''description'', JStr description),
                         (''image_url'', JStr (image_url_of file)),
                         (''_id'', JStr (str_oid (next_oid s)))])]"
    "s' = s\<lparr>counter_collection := cc,
            projects_collection :=
              projects_collection s @
                [[(''_id'', ObjectId (next_oid s)), (''id'', JInt pid), (''name'', JStr name),
                  (''description'', JStr description), (''image_url'', JStr (image_url_of file))]],
            next_oid := Suc (next_oid s)\<rparr>"
    by simp_all
  with nd li assms(3) show ?thesis
    by (simp add: image_url_of_def fmt_def)
qed

theorem add_project_created_witness:
  "add_project
      \<lparr>json_body = Inr JNull,
        files = [(''image'', \<lparr>filename = Some ''a.jpg'', content_type = Some ''image/jpeg'',
                               content = [0xFF, 0xD8, 0xFF, 0xE0]\<rparr>)],
        form = [(''name'', ''X''), (''description'', ''Y'')]\<rparr>
      \<lparr>projects_collection = [], clients_collection = [], contacts_collection = [],
        subscribers_collection = [],
        counter_collection = [[(''_id'', JStr ''projects''), (''sequence_value'', JInt 3)]],
        next_oid = 5\<rparr>
    = (Response
         (JObj [(''message'', JStr ''Project created''),
               (''data'',
                JObj [(''id'', JInt 4), (''name'', JStr ''X''), (''description'', JStr ''Y''),
                      (''image_url'', JStr ''data:image/jpeg;base64,/9j/4A==''),
                      (''_id'', JStr ''000000000000000000000005'')])])
         201,
       \<lparr>projects_collection =
          [[(''_id'', ObjectId 5), (''id'', JInt 4), (''name'', JStr ''X''), (''description'', JStr ''Y''),
            (''image_url'', JStr ''data:image/jpeg;base64,/9j/4A=='')]],
        clients_collection = [], contacts_collection = [], subscribers_collection = [],
        counter_collection = [[(''_id'', JStr ''projects''), (''sequence_value'', JInt 4)]],
        next_oid = 6\<rparr>) \<and>
   last_issued [[(''_id'', JStr ''projects''), (''sequence_value'', JInt 3)]] ''projects'' = 3 \<and>
   b64encode [0xFF, 0xD8, 0xFF, 0xE0] = ''/9j/4A==''"
proof -
  have e: "add_project
      \<lparr>json_body = Inr JNull,
        files = [(''image'', \<lparr>filename = Some ''a.jpg'', content_type = Some ''image/jpeg'',
                               content = [0xFF, 0xD8, 0xFF, 0xE0]\<rparr>)],
        form = [(''name'', ''X''), (''description'', ''Y'')]\<rparr>
      \<lparr>projects_collection = [], clients_collection = [], contacts_collection = [],
        subscribers_collection = [],
        counter_collection = [[(''_id'', JStr ''projects''), (''sequence_value'', JInt 3)]],
        next_oid = 5\<rparr>
    = (Response
         (JObj [(''message'', JStr ''Project created''),
               (''data'',
                JObj [(''id'', JInt 4), (''name'', JStr ''X''), (''description'', JStr ''Y''),
                      (''image_url'', JStr ''data:image/jpeg;base64,/9j/4A==''),
                      (''_id'', JStr ''000000000000000000000005'')])])
         201,
       \<lparr>projects_collection =
          [[(''_id'', ObjectId 5), (''id'', JInt 4), (''name'', JStr ''X''), (''description'', JStr ''Y''),
            (''image_url'', JStr ''data:image/jpeg;base64,/9j/4A=='')]],
        clients_collection = [], contacts_collection = [], subscribers_collection = [],
        counter_collection = [[(''_id'', JStr ''projects''), (''sequence_value'', JInt 4)]],
        next_oid = 6\<rparr>)"
    by code_simp
  have f: "map_of (files \<lparr>json_body = Inr JNull,
        files = [(''image'', \<lparr>filename = Some ''a.jpg'', content_type = Some ''image/jpeg'',
                               content = [0xFF, 0xD8, 0xFF, 0xE0]\<rparr>)],
        form = [(''name'', ''X''), (''description'', ''Y'')]\<rparr>) ''image''
           = Some \<lparr>filename = Some ''a.jpg'', content_type = Some ''image/jpeg'',
                               content = [0xFF, 0xD8, 0xFF, 0xE0]\<rparr>"
    by simp
  have l: "last_issued [[(''_id'', JStr ''projects''), (''sequence_value'', JInt 3)]] ''projects'' = 3"
    by code_simp
  have b: "b64encode [0xFF, 0xD8, 0xFF, 0xE0] = ''/9j/4A==''"
    by code_simp
  from add_project_created[OF e f] l b show ?thesis
    using e by simp
qed

section \<open>The submission routes\<close>

lemma delete_absent: "map_of d k = None \<Longrightarrow> AList.delete k d = d"
  by (induction d) (auto split: if_splits)

lemma insert_one_dict_only:
  "insert_one c oid v = Inr x \<Longrightarrow> \<exists>d. v = JObj d"
  by (cases v) (simp_all add: insert_one_def)

lemma insert_one_not_dict:
  "\<forall>d. v \<noteq> JObj d \<Longrightarrow>
   insert_one c oid v = Inl (TypeError ''document must be an instance of dict'')"
  by (cases v) (simp_all add: insert_one_def)

lemma insert_one_stored:
  assumes "insert_one c oid (JObj d) = Inr (i, c', oid')"
  shows "i = (case map_of d ''_id'' of None \<Rightarrow> ObjectId oid | Some v \<Rightarrow> v) \<and>
         c' = c @ [(''_id'', i) # AList.delete ''_id'' d] \<and>
         (map_of d ''_id'' = None \<longrightarrow> c' = c @ [(''_id'', ObjectId oid) # d])"
proof (cases "map_of d ''_id''")
  case None
  with assms delete_absent[OF None] show ?thesis
    by (auto simp: insert_one_def split: option.splits)
next
  case (Some v)
  with assms show ?thesis
    by (auto simp: insert_one_def split: option.splits if_splits)
qed

lemma submit_contact_raises_early:
  "json_body req = Inl e \<Longrightarrow> submit_contact req s = (Raises e, s)"
  by (simp add: submit_contact_def)

lemma subscribe_raises_early:
  "json_body req = Inl e \<Longrightarrow> subscribe req s = (Raises e, s)"
  by (simp add: subscribe_def)

lemma submit_contact_falsy:
  "json_body req = Inr data \<Longrightarrow> \<not> truthy data \<Longrightarrow>
   submit_contact req s = (Response (JObj [(''error'', JStr ''No data provided'')]) 400, s)"
  by (simp add: submit_contact_def jsonify_def)

lemma submit_contact_refused:
  "json_body req = Inr data \<Longrightarrow> truthy data \<Longrightarrow>
   insert_one (contacts_collection s) (next_oid s) data = Inl e \<Longrightarrow>
   submit_contact req s = (Raises e, s)"
  by (simp add: submit_contact_def)

lemma submit_contact_accepted:
  "json_body req = Inr data \<Longrightarrow> truthy data \<Longrightarrow>
   insert_one (contacts_collection s) (next_oid s) data = Inr (i, c, oid) \<Longrightarrow>
   submit_contact req s =
     (Response (JObj [(''message'', JStr ''Contact submitted'')]) 201,
      s\<lparr>contacts_collection := c, next_oid := oid\<rparr>)"
  by (simp add: submit_contact_def jsonify_def)

lemma submit_contact_400:
  assumes "json_body req = Inr data"
  shows "(\<exists>body. fst (submit_contact req s) = Response body 400) = (\<not> truthy data)"
proof (cases "truthy data")
  case False
  with submit_contact_falsy[OF assms, of s] show ?thesis by simp
next
  case True
  show ?thesis
  proof (cases "insert_one (contacts_collection s) (next_oid s) data")
    case (Inl e)
    from submit_contact_refused[OF assms True Inl] True show ?thesis by simp
  next
    case (Inr x)
    obtain i c oid where "x = (i, c, oid)" by (cases x)
    with submit_contact_accepted[OF assms True, of s i c oid] Inr True show ?thesis by simp
  qed
qed

lemma submit_contact_201:
  assumes "json_body req = Inr data"
  shows "(\<exists>body s'. submit_contact req s = (Response body 201, s')) =
         (truthy data \<and> (\<exists>x. insert_one (contacts_collection s) (next_oid s) data = Inr x))"
proof (cases "truthy data")
  case False
  with submit_contact_falsy[OF assms, of s] show ?thesis by simp
next
  case True
  show ?thesis
  proof (cases "insert_one (contacts_collection s) (next_oid s) data")
    case (Inl e)
    from submit_contact_refused[OF assms True Inl] True Inl show ?thesis by simp
  next
    case (Inr x)
    obtain i c oid where "x = (i, c, oid)" by (cases x)
    with submit_contact_accepted[OF assms True, of s i c oid] Inr True show ?thesis by simp
  qed
qed

lemma subscribe_rejected:
  "json_body req = Inr data \<Longrightarrow> \<not> truthy data \<or> py_in ''email'' data = Inr False \<Longrightarrow>
   subscribe req s = (Response (JObj [(''error'', JStr ''Email is required'')]) 400, s)"
  by (auto simp: subscribe_def jsonify_def)

lemma subscribe_test_raises:
  "json_body req = Inr data \<Longrightarrow> truthy data \<Longrightarrow> py_in ''email'' data = Inl e \<Longrightarrow>
   subscribe req s = (Raises e, s)"
  by (simp add: subscribe_def)

lemma subscribe_refused:
  "json_body req = Inr data \<Longrightarrow> truthy data \<Longrightarrow> py_in ''email'' data = Inr True \<Longrightarrow>
   insert_one (subscribers_collection s) (next_oid s) data = Inl e \<Longrightarrow>
   subscribe req s = (Raises e, s)"
  by (simp add: subscribe_def)

lemma subscribe_accepted:
  "json_body req = Inr data \<Longrightarrow> truthy data \<Longrightarrow> py_in ''email'' data = Inr True \<Longrightarrow>
   insert_one (subscribers_collection s) (next_oid s) data = Inr (i, c, oid) \<Longrightarrow>
   subscribe req s =
     (Response (JObj [(''message'', JStr ''Subscribed'')]) 201,
      s\<lparr>subscribers_collection := c, next_oid := oid\<rparr>)"
  by (simp add: subscribe_def jsonify_def)

lemma subscribe_cases:
  assumes "json_body req = Inr data"
  shows "(\<not> truthy data \<or> py_in ''email'' data = Inr False) \<and>
           subscribe req s = (Response (JObj [(''error'', JStr ''Email is required'')]) 400, s)
         \<or> truthy data \<and> (\<exists>e. (py_in ''email'' data = Inl e \<or>
               py_in ''email'' data = Inr True \<and>
               insert_one (subscribers_collection s) (next_oid s) data = Inl e) \<and>
             subscribe req s = (Raises e, s))
         \<or> truthy data \<and> py_in ''email'' data = Inr True \<and>
             (\<exists>i c oid. insert_one (subscribers_collection s) (next_oid s) data = Inr (i, c, oid) \<and>
                subscribe req s =
                  (Response (JObj [(''message'', JStr ''Subscribed'')]) 201,
                   s\<lparr>subscribers_collection := c, next_oid := oid\<rparr>))"
proof (cases "truthy data")
  case False
  with subscribe_rejected[OF assms, of s] show ?thesis by simp
next
  case True
  show ?thesis
  proof (cases "py_in ''email'' data")
    case (Inl e)
    with subscribe_test_raises[OF assms True Inl, of s] True show ?thesis by auto
  next
    case (Inr b)
    show ?thesis
    proof (cases b)
      case False
      with Inr subscribe_rejected[OF assms, of s] show ?thesis by simp
    next
      case b: True
      show ?thesis
      proof (cases "insert_one (subscribers_collection s) (next_oid s) data")
        case (Inl e)
        with subscribe_refused[OF assms True Inr[unfolded b[THEN eqTrueI]] Inl] True Inr b
        show ?thesis by auto
      next
        case ins: (Inr x)
        obtain i c oid where x: "x = (i, c, oid)" by (cases x)
        from subscribe_accepted[OF assms True Inr[unfolded b[THEN eqTrueI]] ins[unfolded x]]
          True Inr b ins x
        show ?thesis by auto
      qed
    qed
  qed
qed

lemma subscribe_400:
  assumes "json_body req = Inr data"
  shows "(\<exists>body. fst (subscribe req s) = Response body 400) =
         (\<not> truthy data \<or> py_in ''email'' data = Inr False)"
  using subscribe_cases[OF assms, of s] by auto

lemma subscribe_201:
  assumes "json_body req = Inr data"
  shows "(\<exists>body s'. subscribe req s = (Response body 201, s')) =
         (truthy data \<and> py_in ''email'' data = Inr True \<and>
          (\<exists>x. insert_one (subscribers_collection s) (next_oid s) data = Inr x))"
  using subscribe_cases[OF assms, of s] by auto

lemma py_in_dict: "py_in k (JObj d) = Inr True \<Longrightarrow> k \<in> fst ` set d"
  by simp


text \<open>
  C5. As stated, for every request, the claim fails: a payload that is not empty
  and not a JSON object, such as the array \<^verbatim>\<open>[1]\<close>, passes \<^verbatim>\<open>not data\<close>, and
  \<^verbatim>\<open>insert_one\<close> refuses it; the exception leaves the handler, nothing is stored,
  and the answer is not 201. The same holds for \<open>subscribe\<close> with the array
  \<^verbatim>\<open>["email"]\<close>.
\<close>

theorem submit_contact_array_counterexample:
  "truthy (JArr [JInt 1]) \<and>
   submit_contact \<lparr>json_body = Inr (JArr [JInt 1]), files = [], form = []\<rparr>
       \<lparr>projects_collection = [], clients_collection = [], contacts_collection = [],
        subscribers_collection = [], counter_collection = [], next_oid = 0\<rparr>
     = (Raises (TypeError ''document must be an instance of dict''),
        \<lparr>projects_collection = [], clients_collection = [], contacts_collection = [],
        subscribers_collection = [], counter_collection = [], next_oid = 0\<rparr>) \<and>
   truthy (JArr [JStr ''email'']) \<and> py_in ''email'' (JArr [JStr ''email'']) = Inr True \<and>
   subscribe \<lparr>json_body = Inr (JArr [JStr ''email'']), files = [], form = []\<rparr>
       \<lparr>projects_collection = [], clients_collection = [], contacts_collection = [],
        subscribers_collection = [], counter_collection = [], next_oid = 0\<rparr>
     = (Raises (TypeError ''document must be an instance of dict''),
        \<lparr>projects_collection = [], clients_collection = [], contacts_collection = [],
        subscribers_collection = [], counter_collection = [], next_oid = 0\<rparr>)"
  by (simp add: submit_contact_def subscribe_def insert_one_def)

text \<open>
  C5, amended. For a request whose \<^verbatim>\<open>request.json\<close> gives a value:
  \<open>submit_contact\<close> answers 400 exactly when the value is falsy (\<^verbatim>\<open>None\<close>, an
  empty object, array or string, 0 or false), and then stores nothing. It
  answers 201 exactly when the value is truthy and \<^verbatim>\<open>insert_one\<close> accepts it,
  which it does for JSON objects only; the payload is then stored with its
  fields as they were sent, under its own \<^verbatim>\<open>_id\<close> when it has one and under a
  generated identifier otherwise. When \<^verbatim>\<open>insert_one\<close> refuses a truthy value,
  as it refuses everything that is not a JSON object, its exception leaves the
  handler and nothing is stored. \<open>subscribe\<close> answers 400 exactly when the value
  is falsy or is an object, array or string without \<^verbatim>\<open>email\<close>, and then stores
  nothing; when the test for \<^verbatim>\<open>email\<close> raises, the exception leaves the handler;
  when the value has \<^verbatim>\<open>email\<close>, all is as for \<open>submit_contact\<close>, on the
  subscribers collection. When \<^verbatim>\<open>request.json\<close> raises, the exception leaves
  either handler and nothing is stored.
\<close>

theorem submission_validation:
  "(json_body req = Inl e \<longrightarrow>
      submit_contact req s = (Raises e, s) \<and> subscribe req s = (Raises e, s)) \<and>
   (json_body req = Inr data \<longrightarrow>
      ((\<exists>body. fst (submit_contact req s) = Response body 400) = (\<not> truthy data)) \<and>
      (\<not> truthy data \<longrightarrow>
         submit_contact req s = (Response (JObj [(''error'', JStr ''No data provided'')]) 400, s)) \<and>
      ((\<exists>body s'. submit_contact req s = (Response body 201, s')) =
         (truthy data \<and> (\<exists>x. insert_one (contacts_collection s) (next_oid s) data = Inr x))) \<and>
      (truthy data \<and> insert_one (contacts_collection s) (next_oid s) data = Inr (i, c, oid) \<longrightarrow>
         submit_contact req s =
           (Response (JObj [(''message'', JStr ''Contact submitted'')]) 201,
            s\<lparr>contacts_collection := c, next_oid := oid\<rparr>) \<and>
         (\<exists>d. data = JObj d \<and>
              i = (case map_of d ''_id'' of None \<Rightarrow> ObjectId (next_oid s) | Some v \<Rightarrow> v) \<and>
              c = contacts_collection s @ [(''_id'', i) # AList.delete ''_id'' d] \<and>
              (map_of d ''_id'' = None \<longrightarrow>
                 c = contacts_collection s @ [(''_id'', ObjectId (next_oid s)) # d]))) \<and>
      (truthy data \<and> insert_one (contacts_collection s) (next_oid s) data = Inl e \<longrightarrow>
         submit_contact req s = (Raises e, s)) \<and>
      ((\<forall>d. data \<noteq> JObj d) \<longrightarrow>
         insert_one (contacts_collection s) (next_oid s) data
           = Inl (TypeError ''document must be an instance of dict'') \<and>
         insert_one (subscribers_collection s) (next_oid s) data
           = Inl (TypeError ''document must be an instance of dict'')) \<and>
      ((\<exists>body. fst (subscribe req s) = Response body 400) =
         (\<not> truthy data \<or> py_in ''email'' data = Inr False)) \<and>
      (\<not> truthy data \<or> py_in ''email'' data = Inr False \<longrightarrow>
         subscribe req s = (Response (JObj [(''error'', JStr ''Email is required'')]) 400, s)) \<and>
      (truthy data \<and> py_in ''email'' data = Inl e \<longrightarrow> subscribe req s = (Raises e, s)) \<and>
      ((\<exists>body s'. subscribe req s = (Response body 201, s')) =
         (truthy data \<and> py_in ''email'' data = Inr True \<and>
          (\<exists>x. insert_one (subscribers_collection s) (next_oid s) data = Inr x))) \<and>
      (truthy data \<and> py_in ''email'' data = Inr True \<and>
       insert_one (subscribers_collection s) (next_oid s) data = Inr (i, c, oid) \<longrightarrow>
         subscribe req s =
           (Response (JObj [(''message'', JStr ''Subscribed'')]) 201,
            s\<lparr>subscribers_collection := c, next_oid := oid\<rparr>) \<and>
         (\<exists>d. data = JObj d \<and> ''email'' \<in> fst ` set d \<and>
              i = (case map_of d ''_id'' of None \<Rightarrow> ObjectId (next_oid s) | Some v \<Rightarrow> v) \<and>
              c = subscribers_collection s @ [(''_id'', i) # AList.delete ''_id'' d] \<and>
              (map_of d ''_id'' = None \<longrightarrow>
                 c = subscribers_collection s @ [(''_id'', ObjectId (next_oid s)) # d]))) \<and>
      (truthy data \<and> py_in ''email'' data = Inr True \<and>
       insert_one (subscribers_collection s) (next_oid s) data = Inl e \<longrightarrow>
         subscribe req s = (Raises e, s)))"
proof (intro conjI impI)
  assume "json_body req = Inl e"
  then show "submit_contact req s = (Raises e, s)" "subscribe req s = (Raises e, s)"
    by (simp_all add: submit_contact_raises_early subscribe_raises_early)
next
  assume j: "json_body req = Inr data"
  show "(\<exists>body. fst (submit_contact req s) = Response body 400) = (\<not> truthy data)"
    by (rule submit_contact_400[OF j])
  show "submit_contact req s = (Response (JObj [(''error'', JStr ''No data provided'')]) 400, s)"
    if "\<not> truthy data"
    by (rule submit_contact_falsy[OF j that])
  show "(\<exists>body s'. submit_contact req s = (Response body 201, s')) =
         (truthy data \<and> (\<exists>x. insert_one (contacts_collection s) (next_oid s) data = Inr x))"
    by (rule submit_contact_201[OF j])
  show "submit_contact req s =
           (Response (JObj [(''message'', JStr ''Contact submitted'')]) 201,
            s\<lparr>contacts_collection := c, next_oid := oid\<rparr>)"
    if "truthy data \<and> insert_one (contacts_collection s) (next_oid s) data = Inr (i, c, oid)"
    using that by (simp add: submit_contact_accepted[OF j])
  show "\<exists>d. data = JObj d \<and>
              i = (case map_of d ''_id'' of None \<Rightarrow> ObjectId (next_oid s) | Some v \<Rightarrow> v) \<and>
              c = contacts_collection s @ [(''_id'', i) # AList.delete ''_id'' d] \<and>
              (map_of d ''_id'' = None \<longrightarrow>
                 c = contacts_collection s @ [(''_id'', ObjectId (next_oid s)) # d])"
    if h: "truthy data \<and> insert_one (contacts_collection s) (next_oid s) data = Inr (i, c, oid)"
  proof -
    from h insert_one_dict_only obtain d where d: "data = JObj d" by blast
    from h insert_one_stored[of "contacts_collection s" "next_oid s" d i c oid] d
    show ?thesis by (auto simp: delete_absent)
  qed
  show "submit_contact req s = (Raises e, s)"
    if "truthy data \<and> insert_one (contacts_collection s) (next_oid s) data = Inl e"
    using that by (simp add: submit_contact_refused[OF j])
  show "insert_one (contacts_collection s) (next_oid s) data
           = Inl (TypeError ''document must be an instance of dict'')"
       "insert_one (subscribers_collection s) (next_oid s) data
           = Inl (TypeError ''document must be an instance of dict'')"
    if "\<forall>d. data \<noteq> JObj d"
    using that by (simp_all add: insert_one_not_dict)
  show "(\<exists>body. fst (subscribe req s) = Response body 400) =
         (\<not> truthy data \<or> py_in ''email'' data = Inr False)"
    by (rule subscribe_400[OF j])
  show "subscribe req s = (Response (JObj [(''error'', JStr ''Email is required'')]) 400, s)"
    if "\<not> truthy data \<or> py_in ''email'' data = Inr False"
    by (rule subscribe_rejected[OF j that])
  show "subscribe req s = (Raises e, s)" if "truthy data \<and> py_in ''email'' data = Inl e"
    using that by (simp add: subscribe_test_raises[OF j])
  show "(\<exists>body s'. subscribe req s = (Response body 201, s')) =
         (truthy data \<and> py_in ''email'' data = Inr True \<and>
          (\<exists>x. insert_one (subscribers_collection s) (next_oid s) data = Inr x))"
    by (rule subscribe_201[OF j])
  show "subscribe req s =
           (Response (JObj [(''message'', JStr ''Subscribed'')]) 201,
            s\<lparr>subscribers_collection := c, next_oid := oid\<rparr>)"
    if "truthy data \<and> py_in ''email'' data = Inr True \<and>
       insert_one (subscribers_collection s) (next_oid s) data = Inr (i, c, oid)"
    using that by (simp add: subscribe_accepted[OF j])
  show "\<exists>d. data = JObj d \<and> ''email'' \<in> fst ` set d \<and>
              i = (case map_of d ''_id'' of None \<Rightarrow> ObjectId (next_oid s) | Some v \<Rightarrow> v) \<and>
              c = subscribers_collection s @ [(''_id'', i) # AList.delete ''_id'' d] \<and>
              (map_of d ''_id'' = None \<longrightarrow>
                 c = subscribers_collection s @ [(''_id'', ObjectId (next_oid s)) # d])"
    if h: "truthy data \<and> py_in ''email'' data = Inr True \<and>
       insert_one (subscribers_collection s) (next_oid s) data = Inr (i, c, oid)"
  proof -
    from h insert_one_dict_only obtain d where d: "data = JObj d" by blast
    from h d have "''email'' \<in> fst ` set d" by simp
    with h insert_one_stored[of "subscribers_collection s" "next_oid s" d i c oid] d
    show ?thesis by (auto simp: delete_absent)
  qed
  show "subscribe req s = (Raises e, s)"
    if "truthy data \<and> py_in ''email'' data = Inr True \<and>
       insert_one (subscribers_collection s) (next_oid s) data = Inl e"
    using that by (simp add: subscribe_refused[OF j])
qed

theorem submission_validation_witness:
  "\<not> truthy (JObj []) \<and>
   submit_contact \<lparr>json_body = Inr (JObj []), files = [], form = []\<rparr>
       \<lparr>projects_collection = [], clients_collection = [], contacts_collection = [],
        subscribers_collection = [], counter_collection = [], next_oid = 0\<rparr>
     = (Response (JObj [(''error'', JStr ''No data provided'')]) 400,
        \<lparr>projects_collection = [], clients_collection = [], contacts_collection = [],
        subscribers_collection = [], counter_collection = [], next_oid = 0\<rparr>) \<and>
   subscribe \<lparr>json_body = Inr (JObj []), files = [], form = []\<rparr>
       \<lparr>projects_collection = [], clients_collection = [], contacts_collection = [],
        subscribers_collection = [], counter_collection = [], next_oid = 0\<rparr>
     = (Response (JObj [(''error'', JStr ''Email is required'')]) 400,
        \<lparr>projects_collection = [], clients_collection = [], contacts_collection = [],
        subscribers_collection = [], counter_collection = [], next_oid = 0\<rparr>) \<and>
   truthy (JObj [(''email'', JStr ''a@b.com''), (''name'', JStr ''A'')]) \<and>
   py_in ''email'' (JObj [(''email'', JStr ''a@b.com''), (''name'', JStr ''A'')]) = Inr True \<and>
   insert_one [] 0 (JObj [(''email'', JStr ''a@b.com''), (''name'', JStr ''A'')])
     = Inr (ObjectId 0, [[(''_id'', ObjectId 0), (''email'', JStr ''a@b.com''), (''name'', JStr ''A'')]], 1) \<and>
   submit_contact \<lparr>json_body = Inr (JObj [(''email'', JStr ''a@b.com''), (''name'', JStr ''A'')]), files = [], form = []\<rparr>
       \<lparr>projects_collection = [], clients_collection = [], contacts_collection = [],
        subscribers_collection = [], counter_collection = [], next_oid = 0\<rparr>
     = (Response (JObj [(''message'', JStr ''Contact submitted'')]) 201,
        \<lparr>projects_collection = [], clients_collection = [], contacts_collection = [[(''_id'', ObjectId 0), (''email'', JStr ''a@b.com''), (''name'', JStr ''A'')]],
        subscribers_collection = [], counter_collection = [], next_oid = 1\<rparr>) \<and>
   subscribe \<lparr>json_body = Inr (JObj [(''email'', JStr ''a@b.com''), (''name'', JStr ''A'')]), files = [], form = []\<rparr>
       \<lparr>projects_collection = [], clients_collection = [], contacts_collection = [],
        subscribers_collection = [], counter_collection = [], next_oid = 0\<rparr>
     = (Response (JObj [(''message'', JStr ''Subscribed'')]) 201,
        \<lparr>projects_collection = [], clients_collection = [], contacts_collection = [],
        subscribers_collection = [[(''_id'', ObjectId 0), (''email'', JStr ''a@b.com''), (''name'', JStr ''A'')]], counter_collection = [], next_oid = 1\<rparr>) \<and>
   insert_one [] 0 (JObj [(''email'', JStr ''a@b.com''), (''n'', JInt 1180591620717411303424)])
     = Inl (OverflowError ''MongoDB can only handle up to 8-byte ints'') \<and>
   submit_contact \<lparr>json_body = Inr (JObj [(''email'', JStr ''a@b.com''), (''n'', JInt 1180591620717411303424)]), files = [], form = []\<rparr>
       \<lparr>projects_collection = [], clients_collection = [], contacts_collection = [],
        subscribers_collection = [], counter_collection = [], next_oid = 0\<rparr>
     = (Raises (OverflowError ''MongoDB can only handle up to 8-byte ints''),
        \<lparr>projects_collection = [], clients_collection = [], contacts_collection = [],
        subscribers_collection = [], counter_collection = [], next_oid = 0\<rparr>) \<and>
   subscribe \<lparr>json_body = Inr (JObj [(''email'', JStr ''a@b.com''), (''n'', JInt 1180591620717411303424)]), files = [], form = []\<rparr>
       \<lparr>projects_collection = [], clients_collection = [], contacts_collection = [],
        subscribers_collection = [], counter_collection = [], next_oid = 0\<rparr>
     = (Raises (OverflowError ''MongoDB can only handle up to 8-byte ints''),
        \<lparr>projects_collection = [], clients_collection = [], contacts_collection = [],
        subscribers_collection = [], counter_collection = [], next_oid = 0\<rparr>) \<and>
   submit_contact \<lparr>json_body = Inl (HTTPException ''415 Unsupported Media Type''), files = [], form = []\<rparr>
       \<lparr>projects_collection = [], clients_collection = [], contacts_collection = [],
        subscribers_collection = [], counter_collection = [], next_oid = 0\<rparr>
     = (Raises (HTTPException ''415 Unsupported Media Type''),
        \<lparr>projects_collection = [], clients_collection = [], contacts_collection = [],
        subscribers_collection = [], counter_collection = [], next_oid = 0\<rparr>) \<and>
   subscribe \<lparr>json_body = Inl (HTTPException ''415 Unsupported Media Type''), files = [], form = []\<rparr>
       \<lparr>projects_collection = [], clients_collection = [], contacts_collection = [],
        subscribers_collection = [], counter_collection = [], next_oid = 0\<rparr>
     = (Raises (HTTPException ''415 Unsupported Media Type''),
        \<lparr>projects_collection = [], clients_collection = [], contacts_collection = [],
        subscribers_collection = [], counter_collection = [], next_oid = 0\<rparr>) \<and>
   truthy (JInt 5) \<and> (\<forall>d. JInt 5 \<noteq> JObj d) \<and>
   py_in ''email'' (JInt 5) = Inl (TypeError ''argument is not iterable'') \<and>
   submit_contact \<lparr>json_body = Inr (JInt 5), files = [], form = []\<rparr>
       \<lparr>projects_collection = [], clients_collection = [], contacts_collection = [],
        subscribers_collection = [], counter_collection = [], next_oid = 0\<rparr>
     = (Raises (TypeError ''document must be an instance of dict''),
        \<lparr>projects_collection = [], clients_collection = [], contacts_collection = [],
        subscribers_collection = [], counter_collection = [], next_oid = 0\<rparr>) \<and>
   subscribe \<lparr>json_body = Inr (JInt 5), files = [], form = []\<rparr>
       \<lparr>projects_collection = [], clients_collection = [], contacts_collection = [],
        subscribers_collection = [], counter_collection = [], next_oid = 0\<rparr>
     = (Raises (TypeError ''argument is not iterable''),
        \<lparr>projects_collection = [], clients_collection = [], contacts_collection = [],
        subscribers_collection = [], counter_collection = [], next_oid = 0\<rparr>) \<and>
   insert_one [] 0 (JObj [(''email'', JStr ''x''), (''_id'', JInt 7)])
     = Inr (JInt 7, [[(''_id'', JInt 7), (''email'', JStr ''x'')]], 0) \<and>
   submit_contact \<lparr>json_body = Inr (JObj [(''email'', JStr ''x''), (''_id'', JInt 7)]), files = [], form = []\<rparr>
       \<lparr>projects_collection = [], clients_collection = [], contacts_collection = [],
        subscribers_collection = [], counter_collection = [], next_oid = 0\<rparr>
     = (Response (JObj [(''message'', JStr ''Contact submitted'')]) 201,
        \<lparr>projects_collection = [], clients_collection = [], contacts_collection = [[(''_id'', JInt 7), (''email'', JStr ''x'')]],
        subscribers_collection = [], counter_collection = [], next_oid = 0\<rparr>)"
proof -
  have i2: "insert_one [] 0 (JObj [(''email'', JStr ''a@b.com''), (''name'', JStr ''A'')])
     = Inr (ObjectId 0, [[(''_id'', ObjectId 0), (''email'', JStr ''a@b.com''), (''name'', JStr ''A'')]], 1)"
    by code_simp
  have i3: "insert_one [] 0 (JObj [(''email'', JStr ''a@b.com''), (''n'', JInt 1180591620717411303424)])
     = Inl (OverflowError ''MongoDB can only handle up to 8-byte ints'')"
    by code_simp
  have i6: "insert_one [] 0 (JObj [(''email'', JStr ''x''), (''_id'', JInt 7)])
     = Inr (JInt 7, [[(''_id'', JInt 7), (''email'', JStr ''x'')]], 0)"
    by code_simp
  note w1 = submission_validation
         [where req = "\<lparr>json_body = Inr (JObj []), files = [], form = []\<rparr>"
            and s = "\<lparr>projects_collection = [], clients_collection = [], contacts_collection = [],
        subscribers_collection = [], counter_collection = [], next_oid = 0\<rparr>"
            and data = "JObj []"]
  note w2 = submission_validation
         [where req = "\<lparr>json_body = Inr (JObj [(''email'', JStr ''a@b.com''), (''name'', JStr ''A'')]), files = [], form = []\<rparr>"
            and s = "\<lparr>projects_collection = [], clients_collection = [], contacts_collection = [],
        subscribers_collection = [], counter_collection = [], next_oid = 0\<rparr>"
            and data = "JObj [(''email'', JStr ''a@b.com''), (''name'', JStr ''A'')]"
            and i = "ObjectId 0"
            and c = "[[(''_id'', ObjectId 0), (''email'', JStr ''a@b.com''), (''name'', JStr ''A'')]]"
            and oid = 1]
  note w3 = submission_validation
         [where req = "\<lparr>json_body = Inr (JObj [(''email'', JStr ''a@b.com''), (''n'', JInt 1180591620717411303424)]), files = [], form = []\<rparr>"
            and s = "\<lparr>projects_collection = [], clients_collection = [], contacts_collection = [],
        subscribers_collection = [], counter_collection = [], next_oid = 0\<rparr>"
            and data = "JObj [(''email'', JStr ''a@b.com''), (''n'', JInt 1180591620717411303424)]"
            and e = "OverflowError ''MongoDB can only handle up to 8-byte ints''" ]
  note w4 = submission_validation
         [where req = "\<lparr>json_body = Inl (HTTPException ''415 Unsupported Media Type''), files = [], form = []\<rparr>"
            and s = "\<lparr>projects_collection = [], clients_collection = [], contacts_collection = [],
        subscribers_collection = [], counter_collection = [], next_oid = 0\<rparr>"
            and e = "HTTPException ''415 Unsupported Media Type''"]
  note w5 = submission_validation
         [where req = "\<lparr>json_body = Inr (JInt 5), files = [], form = []\<rparr>"
            and s = "\<lparr>projects_collection = [], clients_collection = [], contacts_collection = [],
        subscribers_collection = [], counter_collection = [], next_oid = 0\<rparr>"
            and data = "JInt 5"
            and e = "TypeError ''argument is not iterable''" ]
  note w6 = submission_validation
         [where req = "\<lparr>json_body = Inr (JObj [(''email'', JStr ''x''), (''_id'', JInt 7)]), files = [], form = []\<rparr>"
            and s = "\<lparr>projects_collection = [], clients_collection = [], contacts_collection = [],
        subscribers_collection = [], counter_collection = [], next_oid = 0\<rparr>"
            and data = "JObj [(''email'', JStr ''x''), (''_id'', JInt 7)]"
            and i = "JInt 7"
            and c = "[[(''_id'', JInt 7), (''email'', JStr ''x'')]]"
            and oid = 0]
  note w7 = submission_validation
         [where req = "\<lparr>json_body = Inr (JInt 5), files = [], form = []\<rparr>"
            and s = "\<lparr>projects_collection = [], clients_collection = [], contacts_collection = [],
        subscribers_collection = [], counter_collection = [], next_oid = 0\<rparr>"
            and data = "JInt 5"
            and e = "TypeError ''document must be an instance of dict''"]
  from w1 w2 w3 w4 w5 w6 w7 show ?thesis
    using i2 i3 i6 by simp
qed

end
